theory Spec2Isabelle
  imports Complex_Main "HOL-Library.AList" "HOL-Library.Sublist"
begin

section \<open>Values, series and data frames\<close>

text \<open>
  The report sections work on pandas data frames. A cell is a Python value or null
  (\<open>None\<close> here, NaN/None/NaT in pandas); a series is the list of the cells of one
  column; a data frame is its index and its columns in order, each a label and a
  series. Column labels are strings. Floats are idealised as rationals.
\<close>

datatype pyval = PyInt int | PyFloat rat | PyStr string | PyBool bool

type_synonym series = "pyval option list"

datatype index_label = Timestamp int | RangeLabel int

record dataframe =
  df_index :: "index_label list"
  df_data :: "(string \<times> series) list"

datatype error = ValueError | KeyError

definition bindE :: "error + 'a \<Rightarrow> ('a \<Rightarrow> error + 'b) \<Rightarrow> error + 'b" where
  "bindE m f = (case m of Inl e \<Rightarrow> Inl e | Inr x \<Rightarrow> f x)"

text \<open>\<open>df.columns\<close> and \<open>df[col]\<close>; the latter raises KeyError for a missing label.\<close>

definition df_columns :: "dataframe \<Rightarrow> string list" where
  "df_columns df = map fst (df_data df)"

definition df_getitem :: "dataframe \<Rightarrow> string \<Rightarrow> error + series" where
  "df_getitem df col = (case map_of (df_data df) col of None \<Rightarrow> Inl KeyError | Some s \<Rightarrow> Inr s)"

text \<open>\<open>series.dropna()\<close>, \<open>series.nunique()\<close> (nulls are not counted),
  \<open>series.isnull().all()\<close> (true of the empty series) and \<open>series.isna().sum()\<close>.\<close>

definition dropna :: "'a option list \<Rightarrow> 'a list" where
  "dropna s = List.map_filter id s"

definition nunique :: "'a option list \<Rightarrow> nat" where
  "nunique s = length (remdups (dropna s))"

definition isnull_all :: "'a option list \<Rightarrow> bool" where
  "isnull_all s = list_all (\<lambda>v. v = None) s"

definition isna_sum :: "'a option list \<Rightarrow> nat" where
  "isna_sum s = length (filter (\<lambda>v. v = None) s)"


section \<open>Descriptive statistics (utils.py)\<close>













section \<open>Most frequent values (utils.py)\<close>

text \<open>
  \<open>series.value_counts()\<close>: the distinct non-null values with their numbers of
  occurrences, most frequent first. pandas does not fix the order among values of equal
  frequency; here they keep the order of first appearance. Nothing below depends on it.
\<close>

definition unique :: "'a list \<Rightarrow> 'a list" where
  "unique xs = rev (remdups (rev xs))"

definition value_counts :: "'a option list \<Rightarrow> ('a \<times> nat) list" where
  "value_counts s =
     (let xs = dropna s in sort_key (\<lambda>(v, c). - int c) (map (\<lambda>v. (v, count_list xs v)) (unique xs)))"

text \<open>Python's positional slices \<open>xs[:n]\<close> and \<open>xs[n:]\<close>; a negative bound counts
  from the end.\<close>

definition slice_to :: "int \<Rightarrow> 'a list \<Rightarrow> 'a list" where
  "slice_to n xs = (if 0 \<le> n then take (nat n) xs else take (length xs - nat (- n)) xs)"

definition slice_from :: "int \<Rightarrow> 'a list \<Rightarrow> 'a list" where
  "slice_from n xs = (if 0 \<le> n then drop (nat n) xs else drop (length xs - nat (- n)) xs)"

text \<open>
  \<open>top_frequent_values\<close> builds the dictionary of the \<open>n_top\<close> most frequent values,
  then the keys "Other values count" and "Null", in this order; a key that is already
  present keeps its place and takes the new value, as in a Python dict. Each value is then
  replaced by the text \<open>f"{c:,} ({100 * c / len(series):.02f} %)"\<close>. The model keeps what
  that text renders: the count \<open>c\<close> and the percentage before rounding (NaN, here
  \<open>None\<close>, on the empty series, where numpy divides zero by zero).
\<close>

type_synonym frequency = "nat \<times> rat option"

definition relative_frequency :: "nat \<Rightarrow> nat \<Rightarrow> rat option" where
  "relative_frequency c len = (if len = 0 then None else Some (100 * of_nat c / of_nat len))"

definition top_frequent_values :: "series \<Rightarrow> int \<Rightarrow> (pyval \<times> frequency) list" where
  "top_frequent_values series n_top =
     (let counts = value_counts series;
          nan_count = isna_sum series;
          result_dict =
            AList.update (PyStr ''Null'') nan_count
              (AList.update (PyStr ''Other values count'') (sum_list (map snd (slice_from n_top counts)))
                (slice_to n_top counts))
      in map (\<lambda>(key, c). (key, (c, relative_frequency c (length series)))) result_dict)"




section \<open>The environment of the report sections\<close>

text \<open>
  Modelled from the spec: the semantic types a column is classified into (numeric,
  categorical, boolean, datetime). The enumeration \<open>edvart.data_types.DataType\<close> is not
  among the analysed files; the sections only tell \<open>CATEGORICAL\<close> and \<open>BOOLEAN\<close> from
  every other member.
\<close>

datatype DataType = NUMERIC | CATEGORICAL | BOOLEAN | DATETIME

text \<open>
  The sections call functions of the repository whose code is in other modules
  (\<open>edvart.data_types\<close>, \<open>code_string_formatting\<close>, \<open>section_base\<close>, \<open>decorators\<close>).
  They are parameters of the model, collected in one record:
  the type tests \<open>is_numeric\<close>, \<open>is_categorical\<close>, \<open>is_boolean\<close> on a series,
  \<open>infer_data_type\<close> and its string form (\<open>string_representation=True\<close>),
  \<open>get_code\<close> (the source text of a function, given by its qualified name),
  \<open>code_dedent\<close>, \<open>Section.get_title\<close> (of the section's name and a heading level), and
  the test of the decorator \<open>check_index_time_ascending\<close> on the index of a data frame.
\<close>

record env =
  is_numeric :: "series \<Rightarrow> bool"
  is_categorical :: "series \<Rightarrow> bool"
  is_boolean :: "series \<Rightarrow> bool"
  infer_data_type :: "series \<Rightarrow> DataType"
  infer_data_type_name :: "series \<Rightarrow> string"
  get_code :: "string \<Rightarrow> string"
  code_dedent :: "string \<Rightarrow> string"
  get_title :: "string \<Rightarrow> nat \<Rightarrow> string"
  index_time_ascending :: "index_label list \<Rightarrow> bool"

section \<open>What a section displays\<close>

text \<open>
  Running a section in a notebook displays headings, tables and plots, and may stop with
  an exception. An event stands for one displayed item and carries the data it is drawn
  from; the outcome of a call is the list of events displayed, and the exception that
  ended it, if any.
\<close>

type_synonym frequency_table = "(pyval \<times> frequency) list"

datatype event =
    Markdown string
  | Printed string
  | BarPlotWarning int
  | CorrelationHeatmap string "string list" "string list"
  | PairPlotShown "string list" "string list" "string option"
  | ContingencyTableShown string string
  | FrequencyTable frequency_table
  | BarPlot "(pyval \<times> rat) list"
  | StatisticsTables series "string list" "string list"
  | Histogram "pyval list" "int option" bool bool
  | UmapScatter "string list" "string option" bool int rat string int
  | AcfPlot string "pyval list" "int list option" bool

type_synonym outcome = "event list \<times> error option"

definition display :: "event \<Rightarrow> outcome" where
  "display e = ([e], None)"

definition raise :: "error \<Rightarrow> outcome" where
  "raise e = ([], Some e)"

definition no_output :: outcome where
  "no_output = ([], None)"

definition and_then :: "outcome \<Rightarrow> outcome \<Rightarrow> outcome" where
  "and_then a b = (case snd a of None \<Rightarrow> (fst a @ fst b, snd b) | Some e \<Rightarrow> a)"

definition with_value :: "error + 'a \<Rightarrow> ('a \<Rightarrow> outcome) \<Rightarrow> outcome" where
  "with_value r f = (case r of Inl e \<Rightarrow> raise e | Inr x \<Rightarrow> f x)"

fun for_each :: "('a \<Rightarrow> outcome) \<Rightarrow> 'a list \<Rightarrow> outcome" where
  "for_each f [] = no_output"
| "for_each f (x # xs) = and_then (f x) (for_each f xs)"

text \<open>
  Modelled from the spec: the decorator \<open>check_index_time_ascending\<close> of
  \<open>edvart.decorators\<close>, which is not among the analysed files. Following the docstring of
  \<open>Autocorrelation.autocorrelation\<close> (ValueError "if the input data is not indexed by
  time in ascending order") it runs the decorated function only on a data frame whose
  index passes the test, and raises ValueError otherwise.
\<close>

definition check_index_time_ascending :: "env \<Rightarrow> (dataframe \<Rightarrow> outcome) \<Rightarrow> dataframe \<Rightarrow> outcome" where
  "check_index_time_ascending env func df =
     (if index_time_ascending env (df_index df) then func df else raise ValueError)"

text \<open>A list comprehension \<open>[x for x in xs if p(x)]\<close> whose test may raise.\<close>

fun filterE :: "('a \<Rightarrow> error + bool) \<Rightarrow> 'a list \<Rightarrow> error + 'a list" where
  "filterE p [] = Inr []"
| "filterE p (x # xs) =
     bindE (p x) (\<lambda>keep. bindE (filterE p xs) (\<lambda>ys. Inr (if keep then x # ys else ys)))"

text \<open>\<open>[col for col in cols if test(df[col])]\<close>.\<close>

definition select_columns :: "(series \<Rightarrow> bool) \<Rightarrow> dataframe \<Rightarrow> string list \<Rightarrow> error + string list" where
  "select_columns test df cols = filterE (\<lambda>col. bindE (df_getitem df col) (\<lambda>s. Inr (test s))) cols"



section \<open>Bivariate analysis (report_sections/bivariate_analysis.py)\<close>

subsection \<open>Correlation plot\<close>

record CorrelationPlot =
  cp_verbosity :: int
  cp_columns :: "string list option"
  cp_columns_x :: "string list option"
  cp_columns_y :: "string list option"

definition CorrelationPlot_init ::
  "int \<Rightarrow> string list option \<Rightarrow> string list option \<Rightarrow> string list option \<Rightarrow> error + CorrelationPlot" where
  "CorrelationPlot_init verbosity columns columns_x columns_y =
     (if (columns_x = None) \<noteq> (columns_y = None) then Inl ValueError
      else Inr \<lparr>cp_verbosity = verbosity, cp_columns = columns,
                cp_columns_x = columns_x, cp_columns_y = columns_y\<rparr>)"

text \<open>
  \<open>columns_x = columns_y = fallback\<close> when \<open>columns_x\<close> is unspecified, the two given
  lists otherwise. Every caller has raised ValueError before when exactly one of the two
  is specified.
\<close>

definition columns_x_y_or ::
  "string list option \<Rightarrow> string list option \<Rightarrow> (error + string list) \<Rightarrow> error + (string list \<times> string list)" where
  "columns_x_y_or columns_x columns_y fallback =
     (case columns_x of
        None \<Rightarrow> bindE fallback (\<lambda>cols. Inr (cols, cols))
      | Some xs \<Rightarrow> (case columns_y of None \<Rightarrow> Inl ValueError | Some ys \<Rightarrow> Inr (xs, ys)))"

definition get_columns_x_y ::
  "env \<Rightarrow> dataframe \<Rightarrow> string list option \<Rightarrow> string list option \<Rightarrow> string list option
     \<Rightarrow> error + (string list \<times> string list)" where
  "get_columns_x_y env df columns columns_x columns_y =
     (if (columns_x = None) \<noteq> (columns_y = None) then Inl ValueError
      else bindE (columns_x_y_or columns_x columns_y
                    (Inr (case columns of None \<Rightarrow> df_columns df | Some cols \<Rightarrow> cols)))
        (\<lambda>(xs, ys). bindE (select_columns (is_numeric env) df xs)
          (\<lambda>xs'. bindE (select_columns (is_numeric env) df ys)
            (\<lambda>ys'. Inr (xs', ys')))))"

text \<open>\<open>str.capitalize\<close> on ASCII letters: the first character in upper case, the rest in
  lower case.\<close>

definition upper_char :: "char \<Rightarrow> char" where
  "upper_char c = (let n = (of_char c :: nat) in if 97 \<le> n \<and> n \<le> 122 then char_of (n - 32) else c)"

definition lower_char :: "char \<Rightarrow> char" where
  "lower_char c = (let n = (of_char c :: nat) in if 65 \<le> n \<and> n \<le> 90 then char_of (n + 32) else c)"

definition capitalize :: "string \<Rightarrow> string" where
  "capitalize s = (case s of [] \<Rightarrow> [] | c # cs \<Rightarrow> upper_char c # map lower_char cs)"

text \<open>The heat map of a correlation stands for \<open>sns.heatmap(corr_func(df).loc[columns_x,
  columns_y])\<close>; the event carries the name of the correlation and the two column lists.\<close>

definition plot_correlation ::
  "env \<Rightarrow> dataframe \<Rightarrow> string \<Rightarrow> string list option \<Rightarrow> string list option \<Rightarrow> string list option \<Rightarrow> outcome" where
  "plot_correlation env df corr_name columns columns_x columns_y =
     with_value (get_columns_x_y env df columns columns_x columns_y)
       (\<lambda>(xs, ys).
          and_then (display (Markdown (''### '' @ capitalize corr_name @ '' Correlation'')))
                   (display (CorrelationHeatmap corr_name xs ys)))"

definition default_correlations :: "string list" where
  "default_correlations = [''pearson'', ''spearman'', ''kendall'']"

definition plot_correlations ::
  "env \<Rightarrow> dataframe \<Rightarrow> string list option \<Rightarrow> string list option \<Rightarrow> string list option
     \<Rightarrow> bool \<Rightarrow> bool \<Rightarrow> bool \<Rightarrow> outcome" where
  "plot_correlations env df columns columns_x columns_y pearson spearman kendall =
     (let correlations = default_correlations;
          correlations = (if \<not> pearson then filter (\<lambda>n. n \<noteq> ''pearson'') correlations else correlations);
          correlations = (if \<not> spearman then filter (\<lambda>n. n \<noteq> ''spearman'') correlations else correlations);
          correlations = (if \<not> kendall then filter (\<lambda>n. n \<noteq> ''kendall'') correlations else correlations)
      in for_each (\<lambda>corr_name. plot_correlation env df corr_name columns columns_x columns_y) correlations)"

definition CorrelationPlot_show :: "env \<Rightarrow> CorrelationPlot \<Rightarrow> dataframe \<Rightarrow> outcome" where
  "CorrelationPlot_show env self df =
     and_then (display (Markdown (get_title env ''Correlation Plot'' 2)))
       (plot_correlations env df (cp_columns self) (cp_columns_x self) (cp_columns_y self) True True True)"

subsection \<open>Pair plot\<close>

record PairPlot =
  pp_verbosity :: int
  pp_columns :: "string list option"
  pp_columns_x :: "string list option"
  pp_columns_y :: "string list option"
  pp_color_col :: "string option"

definition PairPlot_init ::
  "int \<Rightarrow> string list option \<Rightarrow> string list option \<Rightarrow> string list option \<Rightarrow> string option \<Rightarrow> error + PairPlot" where
  "PairPlot_init verbosity columns columns_x columns_y color_col =
     (if (columns_x = None) \<noteq> (columns_y = None) then Inl ValueError
      else Inr \<lparr>pp_verbosity = verbosity, pp_columns = columns,
                pp_columns_x = columns_x, pp_columns_y = columns_y, pp_color_col = color_col\<rparr>)"

definition pairplot_include_column :: "env \<Rightarrow> series \<Rightarrow> bool" where
  "pairplot_include_column env s = (\<not> is_categorical env s \<and> \<not> is_boolean env s)"

definition plot_pairplot ::
  "env \<Rightarrow> dataframe \<Rightarrow> string list option \<Rightarrow> string list option \<Rightarrow> string list option
     \<Rightarrow> bool \<Rightarrow> string option \<Rightarrow> outcome" where
  "plot_pairplot env df columns columns_x columns_y allow_categorical color_col =
     (if (columns_x = None) \<noteq> (columns_y = None) then raise ValueError
      else with_value
        (bindE (columns_x_y_or columns_x columns_y
                  (case columns of
                     None \<Rightarrow> select_columns (pairplot_include_column env) df (df_columns df)
                   | Some cols \<Rightarrow> Inr cols))
           (\<lambda>(xs, ys).
              if \<not> allow_categorical
              then bindE (select_columns (pairplot_include_column env) df xs)
                     (\<lambda>xs'. bindE (select_columns (pairplot_include_column env) df ys)
                       (\<lambda>ys'. Inr (xs', ys')))
              else Inr (xs, ys)))
        (\<lambda>(xs, ys). display (PairPlotShown xs ys color_col)))"

definition PairPlot_show :: "env \<Rightarrow> PairPlot \<Rightarrow> dataframe \<Rightarrow> outcome" where
  "PairPlot_show env self df =
     and_then (display (Markdown (get_title env ''Pairplot'' 2)))
       (plot_pairplot env df (pp_columns self) (pp_columns_x self) (pp_columns_y self) False
          (pp_color_col self))"

subsection \<open>Contingency tables\<close>

record ContingencyTable =
  ct_verbosity :: int
  ct_columns :: "string list option"
  ct_columns_x :: "string list option"
  ct_columns_y :: "string list option"
  ct_columns_pairs :: "(string \<times> string) list option"

definition ContingencyTable_init ::
  "int \<Rightarrow> string list option \<Rightarrow> string list option \<Rightarrow> string list option
     \<Rightarrow> (string \<times> string) list option \<Rightarrow> ContingencyTable" where
  "ContingencyTable_init verbosity columns columns_x columns_y columns_pairs =
     \<lparr>ct_verbosity = verbosity, ct_columns = columns, ct_columns_x = columns_x,
      ct_columns_y = columns_y, ct_columns_pairs = columns_pairs\<rparr>"

text \<open>
  The inner function \<open>include_column\<close> of \<open>contingency_tables\<close>. Both operands of its
  \<open>and\<close> read \<open>df[col]\<close>, and one of them is always evaluated first, so a missing column
  raises KeyError whatever the threshold is.
\<close>

definition include_column :: "dataframe \<Rightarrow> int \<Rightarrow> string \<Rightarrow> error + bool" where
  "include_column df table_threshold col =
     bindE (df_getitem df col)
       (\<lambda>s. Inr ((table_threshold < 0 \<or> int (nunique s) \<le> table_threshold) \<and> \<not> isnull_all s))"

definition include_column_pair :: "dataframe \<Rightarrow> int \<Rightarrow> string \<times> string \<Rightarrow> error + bool" where
  "include_column_pair df table_threshold col_pair =
     (if fst col_pair = snd col_pair then Inr False
      else bindE (include_column df table_threshold (fst col_pair))
             (\<lambda>first. if first then include_column df table_threshold (snd col_pair) else Inr False))"

text \<open>\<open>ContingencyTable.contingency_table(df, column1, column2)\<close> draws one table; the
  event carries the two columns.\<close>

definition contingency_table :: "dataframe \<Rightarrow> string \<Rightarrow> string \<Rightarrow> outcome" where
  "contingency_table df columns1 columns2 = display (ContingencyTableShown columns1 columns2)"

definition contingency_tables ::
  "dataframe \<Rightarrow> string list option \<Rightarrow> string list option \<Rightarrow> string list option
     \<Rightarrow> (string \<times> string) list option \<Rightarrow> int \<Rightarrow> outcome" where
  "contingency_tables df columns columns_x columns_y columns_pairs table_threshold =
     (if (columns_x = None) \<noteq> (columns_y = None) then raise ValueError
      else with_value
        (bindE (case columns_pairs of
                  Some pairs \<Rightarrow> Inr pairs
                | None \<Rightarrow>
                    bindE (columns_x_y_or columns_x columns_y
                             (case columns of
                                None \<Rightarrow> select_columns (\<lambda>s. 1 < nunique s) df (df_columns df)
                              | Some cols \<Rightarrow> Inr cols))
                      (\<lambda>(xs, ys). Inr (concat (map (\<lambda>col_x. map (\<lambda>col_y. (col_x, col_y)) ys) xs))))
           (\<lambda>pairs. filterE (include_column_pair df table_threshold) pairs))
        (\<lambda>pairs. for_each (\<lambda>(column1, column2). contingency_table df column1 column2) pairs))"

definition ContingencyTable_show :: "env \<Rightarrow> ContingencyTable \<Rightarrow> dataframe \<Rightarrow> outcome" where
  "ContingencyTable_show env self df =
     and_then (display (Markdown (get_title env ''Contingency table'' 2)))
       (contingency_tables df (ct_columns self) (ct_columns_x self) (ct_columns_y self)
          (ct_columns_pairs self) 30)"

subsection \<open>The section\<close>

datatype BivariateAnalysisSubsection = Sub_CorrelationPlot | Sub_PairPlot | Sub_ContingencyTable

text \<open>A subsection object is one of the three classes; its methods dispatch on the class.\<close>

datatype subsection_impl =
    CorrelationPlot_impl CorrelationPlot
  | PairPlot_impl PairPlot
  | ContingencyTable_impl ContingencyTable

fun impl_verbosity :: "subsection_impl \<Rightarrow> int" where
  "impl_verbosity (CorrelationPlot_impl s) = cp_verbosity s"
| "impl_verbosity (PairPlot_impl s) = pp_verbosity s"
| "impl_verbosity (ContingencyTable_impl s) = ct_verbosity s"

fun impl_show :: "env \<Rightarrow> subsection_impl \<Rightarrow> dataframe \<Rightarrow> outcome" where
  "impl_show env (CorrelationPlot_impl s) df = CorrelationPlot_show env s df"
| "impl_show env (PairPlot_impl s) df = PairPlot_show env s df"
| "impl_show env (ContingencyTable_impl s) df = ContingencyTable_show env s df"

record BivariateAnalysis =
  ba_verbosity :: int
  ba_columns :: "string list option"
  ba_subsections :: "subsection_impl list"
  ba_subsections_0 :: "BivariateAnalysisSubsection list option"
  ba_columns_x :: "string list option"
  ba_columns_y :: "string list option"
  ba_columns_pairs :: "(string \<times> string) list option"
  ba_color_col :: "string option"

definition all_subsections :: "BivariateAnalysisSubsection list" where
  "all_subsections = [Sub_CorrelationPlot, Sub_PairPlot, Sub_ContingencyTable]"

definition or_else :: "'a option \<Rightarrow> 'a \<Rightarrow> 'a" where
  "or_else given fallback = (case given of Some v \<Rightarrow> v | None \<Rightarrow> fallback)"

fun lookup_subsection :: "'a \<Rightarrow> 'a \<Rightarrow> 'a \<Rightarrow> BivariateAnalysisSubsection \<Rightarrow> 'a" where
  "lookup_subsection c p t Sub_CorrelationPlot = c"
| "lookup_subsection c p t Sub_PairPlot = p"
| "lookup_subsection c p t Sub_ContingencyTable = t"

definition BivariateAnalysis_init ::
  "BivariateAnalysisSubsection list option \<Rightarrow> int \<Rightarrow> string list option \<Rightarrow> string list option
     \<Rightarrow> string list option \<Rightarrow> (string \<times> string) list option \<Rightarrow> int option \<Rightarrow> int option
     \<Rightarrow> int option \<Rightarrow> string option \<Rightarrow> error + BivariateAnalysis" where
  "BivariateAnalysis_init subsections verbosity columns columns_x columns_y columns_pairs
     verbosity_correlations verbosity_pairplot verbosity_contingency_table color_col =
     (let verbosity_correlations = or_else verbosity_correlations verbosity;
          verbosity_pairplot = or_else verbosity_pairplot verbosity;
          verbosity_contingency_table = or_else verbosity_contingency_table verbosity;
          verbosities = lookup_subsection verbosity_correlations verbosity_pairplot
                          verbosity_contingency_table;
          subsections_all = (case subsections of None \<Rightarrow> all_subsections | Some subs \<Rightarrow> subs);
          subsections_0 = filter (\<lambda>sub. verbosities sub = 0) subsections_all;
          subsections_0 =
            (if length subsections_0 = length subsections_all \<and> subsections = None
             then None else Some subsections_0)
      in if (columns_x = None) \<noteq> (columns_y = None) then Inl ValueError
         else
           let (columns_x_no_pairs, columns_y_no_pairs) =
                 (case columns_pairs of
                    Some pairs \<Rightarrow>
                      if columns = None \<and> columns_x = None
                      then (Some (map fst pairs), Some (map snd pairs))
                      else (columns_x, columns_y)
                  | None \<Rightarrow> (columns_x, columns_y))
           in bindE (CorrelationPlot_init verbosity_correlations columns
                       columns_x_no_pairs columns_y_no_pairs)
               (\<lambda>correlation_plot.
                  bindE (PairPlot_init verbosity_pairplot columns
                           columns_x_no_pairs columns_y_no_pairs color_col)
                    (\<lambda>pair_plot.
                       let contingency =
                             ContingencyTable_init verbosity_contingency_table columns
                               columns_x columns_y columns_pairs;
                           enum_to_implementation =
                             lookup_subsection (CorrelationPlot_impl correlation_plot)
                               (PairPlot_impl pair_plot) (ContingencyTable_impl contingency)
                       in Inr \<lparr>ba_verbosity = verbosity, ba_columns = columns,
                                ba_subsections = map enum_to_implementation subsections_all,
                                ba_subsections_0 = subsections_0,
                                ba_columns_x = columns_x, ba_columns_y = columns_y,
                                ba_columns_pairs = columns_pairs, ba_color_col = color_col\<rparr>)))"

text \<open>The loop \<open>for sub in subsections: sub.show(df)\<close>.\<close>

definition show_subsections :: "env \<Rightarrow> subsection_impl list \<Rightarrow> dataframe \<Rightarrow> outcome" where
  "show_subsections env subs df = for_each (\<lambda>sub. impl_show env sub df) subs"

definition bivariate_analysis ::
  "env \<Rightarrow> dataframe \<Rightarrow> BivariateAnalysisSubsection list option \<Rightarrow> string list option
     \<Rightarrow> string list option \<Rightarrow> string list option \<Rightarrow> (string \<times> string) list option
     \<Rightarrow> string option \<Rightarrow> outcome" where
  "bivariate_analysis env df subsections columns columns_x columns_y columns_pairs color_col =
     with_value
       (BivariateAnalysis_init subsections 0 columns columns_x columns_y columns_pairs
          None None None color_col)
       (\<lambda>section. show_subsections env (ba_subsections section) df)"

text \<open>
  Modelled from the spec: \<open>ReportSection.show\<close> of \<open>section_base\<close>, which is not among the
  analysed files, shows every subsection in order, as the loop of \<open>bivariate_analysis\<close>
  does. \<open>BivariateAnalysis.show\<close> displays the title of the section first.
\<close>

definition BivariateAnalysis_show :: "env \<Rightarrow> BivariateAnalysis \<Rightarrow> dataframe \<Rightarrow> outcome" where
  "BivariateAnalysis_show env self df =
     and_then (display (Markdown (get_title env ''Bivariate analysis'' 1)))
       (show_subsections env (ba_subsections self) df)"


section \<open>Univariate analysis (report_sections/univariate_analysis.py)\<close>

text \<open>\<open>df[columns]\<close> with a list of labels: the frame of these columns in the given
  order; KeyError when a label is missing.\<close>

fun select_data :: "(string \<times> series) list \<Rightarrow> string list \<Rightarrow> error + (string \<times> series) list" where
  "select_data data [] = Inr []"
| "select_data data (col # cols) =
     (case map_of data col of
        None \<Rightarrow> Inl KeyError
      | Some s \<Rightarrow> bindE (select_data data cols) (\<lambda>rest. Inr ((col, s) # rest)))"

definition df_getitem_list :: "dataframe \<Rightarrow> string list \<Rightarrow> error + dataframe" where
  "df_getitem_list df cols = bindE (select_data (df_data df) cols) (\<lambda>data. Inr (df\<lparr>df_data := data\<rparr>))"

record UnivariateAnalysis =
  ua_df :: dataframe
  ua_verbosity :: int
  ua_columns :: "string list option"

definition UnivariateAnalysis_init :: "dataframe \<Rightarrow> int \<Rightarrow> string list option \<Rightarrow> UnivariateAnalysis" where
  "UnivariateAnalysis_init df verbosity columns =
     \<lparr>ua_df = df, ua_verbosity = verbosity, ua_columns = columns\<rparr>"

text \<open>The names of the default statistics, in the order of the two dictionaries; the
  statistic functions are those of utils.py.\<close>

definition default_descriptive_statistics :: "string list" where
  "default_descriptive_statistics =
     [''Number of unique values'', ''Sum'', ''Mean'', ''Mode'', ''Standard deviation'',
      ''Mean absolute deviation'', ''Median absolute deviation'', ''Coefficient of variation'',
      ''Kurtosis'', ''Skewness'']"

definition default_quantile_statistics :: "string list" where
  "default_quantile_statistics =
     [''Minimum'', ''Maximum'', ''Q1'', ''Median'', ''Q3'', ''Range'', ''IQR'']"

text \<open>
  The four display routines. \<open>histogram\<close> draws the non-null values (the event keeps the
  number of bins, \<open>density\<close> and \<open>box_plot\<close>). \<open>bar_plot\<close> draws the value counts,
  divided by the length of the series when \<open>relative_count\<close> is set, unless the series
  has more than \<open>plotting_threshold\<close> distinct values: then it only issues a warning, which
  the event \<open>BarPlotWarning\<close> stands for. \<open>numeric_statistics\<close> renders one table per
  dictionary, each statistic applied to the series (the event keeps the series and the
  names of the rows). \<open>top_most_frequent\<close> renders the dictionary of
  \<open>utils.top_frequent_values\<close>.
\<close>

definition histogram :: "series \<Rightarrow> int option \<Rightarrow> bool \<Rightarrow> bool \<Rightarrow> rat \<times> rat \<Rightarrow> outcome" where
  "histogram series bins density box_plot figsize =
     (let series = dropna series in display (Histogram series bins density box_plot))"

definition bar_plot :: "series \<Rightarrow> bool \<Rightarrow> rat \<times> rat \<Rightarrow> int \<Rightarrow> outcome" where
  "bar_plot series relative_count figsize plotting_threshold =
     (if plotting_threshold < int (nunique series) then display (BarPlotWarning plotting_threshold)
      else let value_counts = map (\<lambda>(v, c). (v, of_nat c)) (value_counts series);
               value_counts = (if relative_count
                               then map (\<lambda>(v, c). (v, c / of_nat (length series))) value_counts
                               else value_counts)
           in display (BarPlot value_counts))"

definition numeric_statistics ::
  "series \<Rightarrow> string list option \<Rightarrow> string list option \<Rightarrow> string \<Rightarrow> outcome" where
  "numeric_statistics series descriptive_stats quantile_stats thousand_separator =
     (let descriptive_stats = or_else descriptive_stats default_descriptive_statistics;
          quantile_stats = or_else quantile_stats default_quantile_statistics
      in display (StatisticsTables series descriptive_stats quantile_stats))"

definition top_most_frequent :: "series \<Rightarrow> int \<Rightarrow> outcome" where
  "top_most_frequent series n_top = display (FrequencyTable (top_frequent_values series n_top))"

text \<open>The body of the loop over the columns in \<open>univariate_analysis\<close>.\<close>

definition univariate_analysis_column :: "env \<Rightarrow> string \<Rightarrow> series \<Rightarrow> outcome" where
  "univariate_analysis_column env col series =
     (if isnull_all series
      then and_then (display (Markdown (''## *'' @ col @ '' - NULL*'')))
             (display (Markdown ''The column contains only null values.''))
      else
        let data_type_name = infer_data_type_name env series;
            data_type = infer_data_type env series
        in and_then (display (Markdown (''## *'' @ col @ '' - '' @ data_type_name @ ''*'')))
             (if data_type = CATEGORICAL \<or> data_type = BOOLEAN
              then and_then (top_most_frequent series 5) (bar_plot series False (20, 7) 50)
              else and_then (numeric_statistics series None None '' '')
                     (histogram series None False True (20, 7))))"

definition univariate_analysis :: "env \<Rightarrow> dataframe \<Rightarrow> string list option \<Rightarrow> outcome" where
  "univariate_analysis env df columns =
     with_value (case columns of Some cols \<Rightarrow> df_getitem_list df cols | None \<Rightarrow> Inr df)
       (\<lambda>df. for_each
          (\<lambda>col. with_value (df_getitem df col) (univariate_analysis_column env col))
          (df_columns df))"

text \<open>The body of the loop in \<open>UnivariateAnalysis.show\<close>: the same, followed by a rule
  for every column that is not all null.\<close>

definition show_column :: "env \<Rightarrow> string \<Rightarrow> series \<Rightarrow> outcome" where
  "show_column env col series =
     (if isnull_all series
      then and_then (display (Markdown (''## *'' @ col @ '' - NULL*'')))
             (display (Markdown ''The column contains only null values.''))
      else
        let data_type_name = infer_data_type_name env series;
            data_type = infer_data_type env series
        in and_then (display (Markdown (''## *'' @ col @ '' - '' @ data_type_name @ ''*'')))
             (and_then
                (if data_type = CATEGORICAL \<or> data_type = BOOLEAN
                 then and_then (top_most_frequent series 5) (bar_plot series False (20, 7) 50)
                 else and_then (numeric_statistics series None None '' '')
                        (histogram series None False True (20, 7)))
                (display (Markdown ''---''))))"

definition UnivariateAnalysis_show :: "env \<Rightarrow> UnivariateAnalysis \<Rightarrow> dataframe \<Rightarrow> outcome" where
  "UnivariateAnalysis_show env self df =
     with_value (case ua_columns self of Some cols \<Rightarrow> df_getitem_list df cols | None \<Rightarrow> Inr df)
       (\<lambda>df. and_then (display (Markdown (get_title env ''Univariate Analysis'' 1)))
          (for_each (\<lambda>col. with_value (df_getitem df col) (show_column env col)) (df_columns df)))"


section \<open>UMAP (report_sections/umap.py)\<close>

text \<open>The loop \<open>for col in columns: if not is_numeric(df[col]): raise ValueError(...)\<close>.\<close>

fun require_numeric :: "env \<Rightarrow> dataframe \<Rightarrow> string list \<Rightarrow> error + unit" where
  "require_numeric env df [] = Inr ()"
| "require_numeric env df (col # cols) =
     bindE (df_getitem df col)
       (\<lambda>s. if \<not> is_numeric env s then Inl ValueError else require_numeric env df cols)"

record UMAP =
  um_verbosity :: int
  um_columns :: "string list option"
  um_color_col :: "string option"
  um_interactive :: bool
  um_n_neighbors :: int
  um_min_dist :: rat
  um_metric :: string


text \<open>
  \<open>plot_umap\<close> resolves the columns, embeds the rows without nulls in them and draws the
  scatter plot. The event \<open>UmapScatter\<close> stands for the plot and keeps the resolved
  columns, the colouring column and the parameters of the embedding.
\<close>

definition plot_umap ::
  "env \<Rightarrow> dataframe \<Rightarrow> string list option \<Rightarrow> string option \<Rightarrow> bool \<Rightarrow> int \<Rightarrow> rat \<Rightarrow> string
     \<Rightarrow> int \<Rightarrow> rat \<times> rat \<Rightarrow> rat \<Rightarrow> bool \<Rightarrow> outcome" where
  "plot_umap env df columns color_col interactive n_neighbors min_dist metric
     random_state figsize opacity show_message =
     with_value (case columns of
                   None \<Rightarrow> select_columns (is_numeric env) df (df_columns df)
                 | Some cols \<Rightarrow> bindE (require_numeric env df cols) (\<lambda>u. Inr cols))
       (\<lambda>columns.
          and_then
            (display (UmapScatter columns color_col interactive n_neighbors min_dist metric
                        random_state))
            (if show_message
             then and_then
                    (display (Printed ''UMAP requires proper setting of hyperparameters. ''))
                    (display (Printed (''If results are unsatisfactory, consider trying different values of parameters''
                                       @ '' `n_neighbors`, `min_dist` and `metric`.'')))
             else no_output))"

definition UMAP_show :: "env \<Rightarrow> UMAP \<Rightarrow> dataframe \<Rightarrow> outcome" where
  "UMAP_show env self df =
     and_then (display (Markdown (get_title env ''UMAP'' 2)))
       (plot_umap env df (um_columns self) (um_color_col self) (um_interactive self)
          (um_n_neighbors self) (um_min_dist self) (um_metric self) 42 (12, 12) (4 / 5) True)"

section \<open>Autocorrelation (report_sections/timeseries_analysis/autocorrelation.py)\<close>

record Autocorrelation =
  ac_verbosity :: int
  ac_columns :: "string list option"

abbreviation newline :: string where
  "newline \<equiv> [CHR 0x0A]"

text \<open>The three static functions, each under the decorator \<open>check_index_time_ascending\<close>.
  The event \<open>AcfPlot\<close> stands for the plot of one column and keeps its non-null values,
  the lags and whether the partial autocorrelation is drawn.\<close>

text \<open>The body of the loop over the columns in \<open>plot_acf\<close>.\<close>

definition plot_acf_column :: "dataframe \<Rightarrow> int list option \<Rightarrow> bool \<Rightarrow> string \<Rightarrow> outcome" where
  "plot_acf_column df lags partial col =
     and_then (display (Markdown (''---'' @ newline @ ''### '' @ col)))
       (with_value (df_getitem df col) (\<lambda>s. display (AcfPlot col (dropna s) lags partial)))"

definition plot_acf ::
  "env \<Rightarrow> dataframe \<Rightarrow> string list option \<Rightarrow> int list option \<Rightarrow> rat \<times> rat \<Rightarrow> bool \<Rightarrow> outcome" where
  "plot_acf env df columns lags figsize partial =
     check_index_time_ascending env
       (\<lambda>df. with_value (case columns of
                           None \<Rightarrow> select_columns (is_numeric env) df (df_columns df)
                         | Some cols \<Rightarrow> bindE (require_numeric env df cols) (\<lambda>u. Inr cols))
          (\<lambda>columns. for_each (plot_acf_column df lags partial) columns))
       df"

definition plot_pacf ::
  "env \<Rightarrow> dataframe \<Rightarrow> string list option \<Rightarrow> int list option \<Rightarrow> rat \<times> rat \<Rightarrow> outcome" where
  "plot_pacf env df columns lags figsize =
     check_index_time_ascending env (\<lambda>df. plot_acf env df columns lags figsize True) df"

definition autocorrelation ::
  "env \<Rightarrow> dataframe \<Rightarrow> string list option \<Rightarrow> int list option \<Rightarrow> rat \<times> rat \<Rightarrow> outcome" where
  "autocorrelation env df columns lags figsize =
     check_index_time_ascending env
       (\<lambda>df. and_then (plot_acf env df columns lags figsize False)
                (and_then (display (Markdown ''## Partial autocorrelation''))
                   (plot_pacf env df columns lags figsize)))
       df"

definition Autocorrelation_show :: "env \<Rightarrow> Autocorrelation \<Rightarrow> dataframe \<Rightarrow> outcome" where
  "Autocorrelation_show env self df =
     and_then (display (Markdown (get_title env ''Autocorrelation'' 2)))
       (autocorrelation env df (ac_columns self) None (15, 6))"


section \<open>Exported notebook cells\<close>

text \<open>\<open>nbformat.v4.new_markdown_cell\<close> and \<open>new_code_cell\<close>: a cell is its kind and its
  source text.\<close>

datatype cell = MarkdownCell string | CodeCell string

subsection \<open>Python text: repr, join, replace\<close>

abbreviation single_quote :: char where
  "single_quote \<equiv> CHR 0x27"

abbreviation double_quote :: char where
  "double_quote \<equiv> CHR 0x22"

abbreviation backslash :: char where
  "backslash \<equiv> CHR 0x5C"

text \<open>\<open>sep.join(parts)\<close>.\<close>

fun py_join :: "string \<Rightarrow> string list \<Rightarrow> string" where
  "py_join sep [] = []"
| "py_join sep [part] = part"
| "py_join sep (part # parts) = part @ sep @ py_join sep parts"

text \<open>
  \<open>repr\<close> of a string: in single quotes, or in double quotes when the string has a
  single quote and no double quote; the quote character and the backslash are escaped,
  tab, newline and carriage return are written \<open>\t\<close>, \<open>\n\<close>, \<open>\r\<close>, every other
  control character as \<open>\xNN\<close>. A character is a byte here: the bytes of a character
  outside ASCII are copied (Python copies a printable one).
\<close>

definition hex_digit :: "nat \<Rightarrow> char" where
  "hex_digit n = (if n < 10 then char_of (48 + n) else char_of (87 + n))"

definition repr_char :: "char \<Rightarrow> char \<Rightarrow> string" where
  "repr_char quote c =
     (let n = (of_char c :: nat) in
      if c = quote \<or> c = backslash then [backslash, c]
      else if n = 9 then [backslash, CHR ''t'']
      else if n = 10 then [backslash, CHR ''n'']
      else if n = 13 then [backslash, CHR ''r'']
      else if n < 32 \<or> n = 127 then [backslash, CHR ''x'', hex_digit (n div 16), hex_digit (n mod 16)]
      else [c])"

definition py_repr_str :: "string \<Rightarrow> string" where
  "py_repr_str s =
     (let quote = (if single_quote \<in> set s \<and> double_quote \<notin> set s then double_quote
                   else single_quote)
      in quote # concat (map (repr_char quote) s) @ [quote])"

text \<open>\<open>repr\<close> of a list of strings and of a list of pairs of strings, and the text an
  f-string writes for an optional value.\<close>

definition py_repr_list :: "string list \<Rightarrow> string" where
  "py_repr_list xs = ''['' @ py_join '', '' (map py_repr_str xs) @ '']''"

definition py_repr_pair :: "string \<times> string \<Rightarrow> string" where
  "py_repr_pair p = ''('' @ py_repr_str (fst p) @ '', '' @ py_repr_str (snd p) @ '')''"

definition py_repr_pairs :: "(string \<times> string) list \<Rightarrow> string" where
  "py_repr_pairs ps = ''['' @ py_join '', '' (map py_repr_pair ps) @ '']''"

definition py_format_optional :: "('a \<Rightarrow> string) \<Rightarrow> 'a option \<Rightarrow> string" where
  "py_format_optional f v = (case v of None \<Rightarrow> ''None'' | Some x \<Rightarrow> f x)"

text \<open>\<open>s.replace(old, new)\<close>: every occurrence of \<open>old\<close>, found from the left without
  overlap, becomes \<open>new\<close>. The counter of the auxiliary function is the number of
  characters of the current occurrence still to be skipped.\<close>

fun replace_from :: "string \<Rightarrow> string \<Rightarrow> nat \<Rightarrow> string \<Rightarrow> string" where
  "replace_from old new skip [] = []"
| "replace_from old new skip (c # cs) =
     (if 0 < skip then replace_from old new (skip - 1) cs
      else if prefix old (c # cs) then new @ replace_from old new (length old - 1) cs
      else c # replace_from old new 0 cs)"

definition py_replace :: "string \<Rightarrow> string \<Rightarrow> string \<Rightarrow> string" where
  "py_replace old new s =
     (if old = [] then new @ concat (map (\<lambda>c. c # new) s) else replace_from old new 0 s)"

subsection \<open>Cells of the bivariate subsections\<close>

text \<open>Each \<open>add_cells\<close> builds the text \<open>default_call\<close> first; an unspecified
  \<open>columns_y\<close> beside a specified \<open>columns_x\<close> would be written \<open>None\<close>.\<close>

definition CorrelationPlot_default_call :: "CorrelationPlot \<Rightarrow> string" where
  "CorrelationPlot_default_call self =
     (let default_call = ''plot_correlations(df=df'';
          default_call =
            (case cp_columns_x self of
               Some xs \<Rightarrow> default_call @ '', columns_x='' @ py_repr_list xs
                            @ '', columns_y='' @ py_format_optional py_repr_list (cp_columns_y self)
             | None \<Rightarrow> (case cp_columns self of
                          Some cols \<Rightarrow> default_call @ '', columns='' @ py_repr_list cols
                        | None \<Rightarrow> default_call))
      in default_call @ '')'')"

definition CorrelationPlot_add_cells :: "env \<Rightarrow> CorrelationPlot \<Rightarrow> cell list \<Rightarrow> cell list" where
  "CorrelationPlot_add_cells env self cells =
     (let section_header = MarkdownCell (get_title env ''Correlation Plot'' 2);
          cells = cells @ [section_header];
          default_call = CorrelationPlot_default_call self;
          code =
            (if cp_verbosity self \<le> 1 then default_call
             else get_code env ''CorrelationPlot.default_correlations''
                  @ newline @ newline
                  @ get_code env ''CorrelationPlot._get_columns_x_y''
                  @ newline @ newline
                  @ py_replace ''CorrelationPlot.'' '''' (get_code env ''CorrelationPlot.plot_correlation'')
                  @ newline @ newline
                  @ py_replace ''CorrelationPlot.'' '''' (get_code env ''CorrelationPlot.plot_correlations'')
                  @ newline @ newline
                  @ default_call)
      in cells @ [CodeCell code])"

definition PairPlot_default_call :: "PairPlot \<Rightarrow> string" where
  "PairPlot_default_call self =
     (let default_call = ''plot_pairplot(df=df'';
          default_call =
            (case pp_columns_x self of
               Some xs \<Rightarrow> default_call @ '', columns_x='' @ py_repr_list xs
                            @ '', columns_y='' @ py_format_optional py_repr_list (pp_columns_y self)
             | None \<Rightarrow> (case pp_columns self of
                          Some cols \<Rightarrow> default_call @ '', columns='' @ py_repr_list cols @ '')''
                        | None \<Rightarrow> default_call));
          default_call =
            (case pp_color_col self of
               Some color \<Rightarrow> default_call @ '', color_col='' @ [single_quote] @ color @ [single_quote]
             | None \<Rightarrow> default_call)
      in default_call @ '')'')"

definition PairPlot_add_cells :: "env \<Rightarrow> PairPlot \<Rightarrow> cell list \<Rightarrow> cell list" where
  "PairPlot_add_cells env self cells =
     (let section_header = MarkdownCell (get_title env ''Pairplot'' 2);
          cells = cells @ [section_header];
          default_call = PairPlot_default_call self;
          code =
            (if pp_verbosity self \<le> 1 then default_call
             else get_code env ''PairPlot.plot_pairplot'' @ newline @ newline @ default_call)
      in cells @ [CodeCell code])"

definition ContingencyTable_default_call :: "ContingencyTable \<Rightarrow> string" where
  "ContingencyTable_default_call self =
     (let default_call = ''contingency_tables(df=df'';
          default_call =
            (case ct_columns_pairs self of
               Some pairs \<Rightarrow> default_call @ '', columns_pairs='' @ py_repr_pairs pairs
             | None \<Rightarrow>
                 (case ct_columns_x self of
                    Some xs \<Rightarrow> default_call @ '', columns_x='' @ py_repr_list xs
                                 @ '', columns_y='' @ py_format_optional py_repr_list (ct_columns_y self)
                  | None \<Rightarrow> (case ct_columns self of
                               Some cols \<Rightarrow> default_call @ '', columns='' @ py_repr_list cols
                             | None \<Rightarrow> default_call)))
      in default_call @ '')'')"

definition ContingencyTable_add_cells :: "env \<Rightarrow> ContingencyTable \<Rightarrow> cell list \<Rightarrow> cell list" where
  "ContingencyTable_add_cells env self cells =
     (let section_header = MarkdownCell (get_title env ''Contingency table'' 2);
          cells = cells @ [section_header];
          default_call = ContingencyTable_default_call self;
          code =
            (if ct_verbosity self \<le> 1 then default_call
             else py_replace ''ContingencyTable.'' '''' (get_code env ''ContingencyTable.contingency_tables'')
                  @ newline @ newline
                  @ get_code env ''ContingencyTable.contingency_table''
                  @ newline @ newline
                  @ default_call)
      in cells @ [CodeCell code])"

fun impl_add_cells :: "env \<Rightarrow> subsection_impl \<Rightarrow> cell list \<Rightarrow> cell list" where
  "impl_add_cells env (CorrelationPlot_impl s) cells = CorrelationPlot_add_cells env s cells"
| "impl_add_cells env (PairPlot_impl s) cells = PairPlot_add_cells env s cells"
| "impl_add_cells env (ContingencyTable_impl s) cells = ContingencyTable_add_cells env s cells"

subsection \<open>Cells of the bivariate section\<close>

text \<open>\<open>str(sub)\<close> of a member of the enumeration is its name.\<close>

fun subsection_name :: "BivariateAnalysisSubsection \<Rightarrow> string" where
  "subsection_name Sub_CorrelationPlot = ''CorrelationPlot''"
| "subsection_name Sub_PairPlot = ''PairPlot''"
| "subsection_name Sub_ContingencyTable = ''ContingencyTable''"

text \<open>
  Modelled from the spec: \<open>ReportSection.add_cells\<close> of \<open>section_base\<close>, which is not among
  the analysed files, lets every subsection add its cells in order (the verbosity levels
  1 and 2 export one call per subsection).
\<close>

definition ReportSection_add_cells :: "env \<Rightarrow> subsection_impl list \<Rightarrow> cell list \<Rightarrow> cell list" where
  "ReportSection_add_cells env subs cells = fold (impl_add_cells env) subs cells"

definition BivariateAnalysis_code :: "BivariateAnalysis \<Rightarrow> string" where
  "BivariateAnalysis_code self =
     (let code = ''bivariate_analysis(df=df'';
          code =
            (case ba_subsections_0 self of
               Some subsections_0 \<Rightarrow>
                 let arg_subsections_names =
                       map (\<lambda>sub. ''BivariateAnalysis.BivariateAnalysisSubsection.'' @ subsection_name sub)
                         subsections_0
                 in code @ py_replace [single_quote] ''''
                             ('', subsections='' @ py_repr_list arg_subsections_names)
             | None \<Rightarrow> code);
          code =
            (case ba_columns_x self of
               Some xs \<Rightarrow> code @ '', columns_x='' @ py_repr_list xs
                            @ '', columns_y='' @ py_format_optional py_repr_list (ba_columns_y self)
             | None \<Rightarrow> (case ba_columns self of
                          Some cols \<Rightarrow> code @ '', columns='' @ py_repr_list cols
                        | None \<Rightarrow> code));
          code =
            (case ba_columns_pairs self of
               Some pairs \<Rightarrow> code @ '', columns_pairs='' @ py_repr_pairs pairs
             | None \<Rightarrow> code);
          code =
            (case ba_color_col self of
               Some color \<Rightarrow> code @ '', color_col='' @ [single_quote] @ color @ [single_quote]
             | None \<Rightarrow> code)
      in code @ '')'')"

definition BivariateAnalysis_add_cells :: "env \<Rightarrow> BivariateAnalysis \<Rightarrow> cell list \<Rightarrow> cell list" where
  "BivariateAnalysis_add_cells env self cells =
     (let section_header = MarkdownCell (get_title env ''Bivariate analysis'' 1);
          cells = cells @ [section_header]
      in if ba_verbosity self = 0
         then let cells = cells @ [CodeCell (BivariateAnalysis_code self)]
              in fold (\<lambda>sub cells. if 0 < impl_verbosity sub then impl_add_cells env sub cells else cells)
                   (ba_subsections self) cells
         else ReportSection_add_cells env (ba_subsections self) cells)"

subsection \<open>Cells of the univariate section\<close>

text \<open>The three f-string templates of \<open>UnivariateAnalysis.add_cells\<close>, as written in the
  source (a line break, then lines indented by 24, 28 and 32 blanks), before
  \<open>code_dedent\<close>.\<close>

definition blanks :: "nat \<Rightarrow> string" where
  "blanks n = replicate n (CHR '' '')"

definition column_item :: "string \<Rightarrow> string" where
  "column_item col = ''df['' @ [single_quote] @ col @ [single_quote] @ '']''"

definition categorical_template :: "string \<Rightarrow> string" where
  "categorical_template col =
     newline @ blanks 24 @ ''top_most_frequent('' @ column_item col @ '')''
     @ newline @ blanks 24 @ ''bar_plot('' @ column_item col @ '')''"

definition numeric_template :: "string \<Rightarrow> string" where
  "numeric_template col =
     newline @ blanks 28 @ ''numeric_statistics('' @ column_item col @ '')''
     @ newline @ blanks 28 @ ''histogram('' @ column_item col @ '')''"

definition numeric_template_with_statistics :: "string \<Rightarrow> string" where
  "numeric_template_with_statistics col =
     newline @ blanks 28 @ ''numeric_statistics(''
     @ newline @ blanks 32 @ column_item col @ '',''
     @ newline @ blanks 32 @ ''descriptive_stats=default_descriptive_statistics(),''
     @ newline @ blanks 32 @ ''quantile_stats=default_quantile_statistics()''
     @ newline @ blanks 28 @ '')''
     @ newline @ blanks 28 @ ''histogram('' @ column_item col @ '')''"

text \<open>The cells with the function definitions that verbosity 2 adds.\<close>

definition definition_cells :: "env \<Rightarrow> cell list" where
  "definition_cells env =
     [CodeCell (''# Default statistics dictionaries''
                @ newline @ newline
                @ get_code env ''UnivariateAnalysis.default_descriptive_statistics''
                @ newline @ newline
                @ get_code env ''UnivariateAnalysis.default_quantile_statistics''),
      CodeCell (get_code env ''UnivariateAnalysis.top_most_frequent''
                @ newline @ newline
                @ get_code env ''UnivariateAnalysis.bar_plot''
                @ newline @ newline
                @ py_replace ''UnivariateAnalysis.'' '''' (get_code env ''UnivariateAnalysis.numeric_statistics'')
                @ newline @ newline
                @ get_code env ''UnivariateAnalysis.histogram''),
      CodeCell (get_code env ''format_number''
                @ newline @ newline
                @ get_code env ''dict_to_html''
                @ newline @ newline
                @ get_code env ''add_html_heading''
                @ newline @ newline
                @ get_code env ''subcells_html'')]"

text \<open>
  The body of the loop over the columns at verbosity 1 and 2: the cells it appends and
  what it displays. An all-null column adds no cell; its heading and note are displayed
  in the calling notebook.
\<close>

definition add_cells_column :: "env \<Rightarrow> int \<Rightarrow> string \<Rightarrow> series \<Rightarrow> cell list \<times> event list" where
  "add_cells_column env verbosity col series =
     (if isnull_all series
      then ([], [Markdown (''## *'' @ col @ '' - NULL*''),
                 Markdown ''The column contains only null values.''])
      else
        let data_type_name = infer_data_type_name env series;
            data_type = infer_data_type env series;
            column_header = MarkdownCell (''## *'' @ col @ '' - '' @ data_type_name @ ''*'');
            code =
              (if data_type = CATEGORICAL \<or> data_type = BOOLEAN
               then code_dedent env (categorical_template col)
               else if verbosity = 1 then code_dedent env (numeric_template col)
               else code_dedent env (numeric_template_with_statistics col))
        in ([column_header, CodeCell code], []))"

fun add_cells_columns ::
  "env \<Rightarrow> int \<Rightarrow> dataframe \<Rightarrow> string list \<Rightarrow> cell list \<Rightarrow> event list
     \<Rightarrow> error + (cell list \<times> event list)" where
  "add_cells_columns env verbosity df [] cells shown = Inr (cells, shown)"
| "add_cells_columns env verbosity df (col # cols) cells shown =
     bindE (df_getitem df col)
       (\<lambda>series. add_cells_columns env verbosity df cols
                    (cells @ fst (add_cells_column env verbosity col series))
                    (shown @ snd (add_cells_column env verbosity col series)))"

text \<open>
  \<open>UnivariateAnalysis.add_cells\<close> narrows \<open>self.df\<close> to \<open>self.columns\<close> first (KeyError
  for a missing label). The result is the section with its frame narrowed, the list of
  cells, and what was displayed on the way.
\<close>

definition UnivariateAnalysis_add_cells ::
  "env \<Rightarrow> UnivariateAnalysis \<Rightarrow> cell list \<Rightarrow> error + (UnivariateAnalysis \<times> cell list \<times> event list)" where
  "UnivariateAnalysis_add_cells env self cells =
     bindE (case ua_columns self of
              Some cols \<Rightarrow> bindE (df_getitem_list (ua_df self) cols) (\<lambda>df. Inr (self\<lparr>ua_df := df\<rparr>))
            | None \<Rightarrow> Inr self)
       (\<lambda>self.
          let section_header = MarkdownCell (get_title env ''Univariate Analysis'' 1);
              cells = cells @ [section_header];
              cells = (if ua_verbosity self = 2 then cells @ definition_cells env else cells)
          in if ua_verbosity self = 0
             then let code =
                        (case ua_columns self of
                           None \<Rightarrow> ''univariate_analysis(df=df)''
                         | Some cols \<Rightarrow> ''univariate_analysis(df=df, columns='' @ py_repr_list cols @ '')'')
                  in Inr (self, cells @ [CodeCell code], [])
             else bindE (add_cells_columns env (ua_verbosity self) (ua_df self)
                           (df_columns (ua_df self)) cells [])
                    (\<lambda>(cells, shown). Inr (self, cells, shown)))"


section \<open>Notions the properties are stated with\<close>

text \<open>The series of a column (empty for a label the frame does not have), and the columns
  of a frame that are numeric.\<close>

definition df_series :: "dataframe \<Rightarrow> string \<Rightarrow> series" where
  "df_series df col = (case map_of (df_data df) col of Some s \<Rightarrow> s | None \<Rightarrow> [])"

definition numeric_column :: "env \<Rightarrow> dataframe \<Rightarrow> string \<Rightarrow> bool" where
  "numeric_column env df col = (case df_getitem df col of Inr s \<Rightarrow> is_numeric env s | Inl e \<Rightarrow> False)"



text \<open>Exactly one of \<open>columns_x\<close>, \<open>columns_y\<close> is specified.\<close>

definition exactly_one_specified :: "'a option \<Rightarrow> 'b option \<Rightarrow> bool" where
  "exactly_one_specified columns_x columns_y = ((columns_x = None) \<noteq> (columns_y = None))"

text \<open>A result that is a value or an exception other than ValueError.\<close>

definition not_ValueError :: "error + 'a \<Rightarrow> bool" where
  "not_ValueError r = (r \<noteq> Inl ValueError)"

definition is_bar_plot :: "event \<Rightarrow> bool" where
  "is_bar_plot e = (case e of BarPlot counts \<Rightarrow> True | _ \<Rightarrow> False)"

text \<open>
  A call in Python syntax as the specification speaks of it: the name of the function, the data
  frame, and the keyword arguments that are present, each written as a Python literal.
  A list of subsections is written with the qualified names of the enumeration.
\<close>

definition optional_argument :: "string \<Rightarrow> string option \<Rightarrow> string" where
  "optional_argument name literal =
     (case literal of None \<Rightarrow> [] | Some text \<Rightarrow> '', '' @ name @ ''='' @ text)"

definition subsection_literal :: "BivariateAnalysisSubsection \<Rightarrow> string" where
  "subsection_literal sub = ''BivariateAnalysis.BivariateAnalysisSubsection.'' @ subsection_name sub"

definition subsections_literal :: "BivariateAnalysisSubsection list \<Rightarrow> string" where
  "subsections_literal subs = ''['' @ py_join '', '' (map subsection_literal subs) @ '']''"

definition bivariate_analysis_call ::
  "BivariateAnalysisSubsection list option \<Rightarrow> string list option \<Rightarrow> string list option
     \<Rightarrow> string list option \<Rightarrow> (string \<times> string) list option \<Rightarrow> string option \<Rightarrow> string" where
  "bivariate_analysis_call subsections columns columns_x columns_y columns_pairs color_col =
     ''bivariate_analysis(df=df''
     @ optional_argument ''subsections'' (map_option subsections_literal subsections)
     @ optional_argument ''columns_x'' (map_option py_repr_list columns_x)
     @ optional_argument ''columns_y'' (map_option py_repr_list columns_y)
     @ optional_argument ''columns'' (map_option py_repr_list columns)
     @ optional_argument ''columns_pairs'' (map_option py_repr_pairs columns_pairs)
     @ optional_argument ''color_col'' (map_option py_repr_str color_col)
     @ '')''"

definition univariate_analysis_call :: "string list option \<Rightarrow> string" where
  "univariate_analysis_call columns =
     ''univariate_analysis(df=df'' @ optional_argument ''columns'' (map_option py_repr_list columns) @ '')''"

definition plot_correlations_call ::
  "string list option \<Rightarrow> string list option \<Rightarrow> string list option \<Rightarrow> string" where
  "plot_correlations_call columns columns_x columns_y =
     ''plot_correlations(df=df''
     @ optional_argument ''columns_x'' (map_option py_repr_list columns_x)
     @ optional_argument ''columns_y'' (map_option py_repr_list columns_y)
     @ optional_argument ''columns'' (map_option py_repr_list columns)
     @ '')''"

text \<open>The \<open>columns\<close> argument a call carries: none beside \<open>columns_x\<close>.\<close>

definition carried_columns :: "string list option \<Rightarrow> string list option \<Rightarrow> string list option" where
  "carried_columns columns columns_x = (case columns_x of Some xs \<Rightarrow> None | None \<Rightarrow> columns)"

text \<open>
  The subsection objects that the constructor of \<open>BivariateAnalysis\<close> builds for the
  members of the enumeration, given the three verbosities and the column parameters
  (\<open>columns_x_no_pairs\<close> and \<open>columns_y_no_pairs\<close> are the first and second components
  of \<open>columns_pairs\<close> when it is the only column parameter).
\<close>

definition columns_x_no_pairs ::
  "string list option \<Rightarrow> string list option \<Rightarrow> (string \<times> string) list option \<Rightarrow> string list option" where
  "columns_x_no_pairs columns columns_x columns_pairs =
     (case columns_pairs of
        Some pairs \<Rightarrow> if columns = None \<and> columns_x = None then Some (map fst pairs) else columns_x
      | None \<Rightarrow> columns_x)"

definition columns_y_no_pairs ::
  "string list option \<Rightarrow> string list option \<Rightarrow> string list option \<Rightarrow> (string \<times> string) list option
     \<Rightarrow> string list option" where
  "columns_y_no_pairs columns columns_x columns_y columns_pairs =
     (case columns_pairs of
        Some pairs \<Rightarrow> if columns = None \<and> columns_x = None then Some (map snd pairs) else columns_y
      | None \<Rightarrow> columns_y)"

definition built_subsection ::
  "int \<Rightarrow> int \<Rightarrow> int \<Rightarrow> string list option \<Rightarrow> string list option \<Rightarrow> string list option
     \<Rightarrow> (string \<times> string) list option \<Rightarrow> string option \<Rightarrow> BivariateAnalysisSubsection
     \<Rightarrow> subsection_impl" where
  "built_subsection v_correlations v_pairplot v_contingency columns columns_x columns_y columns_pairs
     color_col =
     lookup_subsection
       (CorrelationPlot_impl
          \<lparr>cp_verbosity = v_correlations, cp_columns = columns,
           cp_columns_x = columns_x_no_pairs columns columns_x columns_pairs,
           cp_columns_y = columns_y_no_pairs columns columns_x columns_y columns_pairs\<rparr>)
       (PairPlot_impl
          \<lparr>pp_verbosity = v_pairplot, pp_columns = columns,
           pp_columns_x = columns_x_no_pairs columns columns_x columns_pairs,
           pp_columns_y = columns_y_no_pairs columns columns_x columns_y columns_pairs,
           pp_color_col = color_col\<rparr>)
       (ContingencyTable_impl
          \<lparr>ct_verbosity = v_contingency, ct_columns = columns, ct_columns_x = columns_x,
           ct_columns_y = columns_y, ct_columns_pairs = columns_pairs\<rparr>)"

text \<open>A name that \<open>repr\<close> writes between single quotes unchanged: no quote, no
  backslash, no control character.\<close>

definition plain_name :: "string \<Rightarrow> bool" where
  "plain_name s =
     list_all (\<lambda>c. c \<noteq> single_quote \<and> c \<noteq> backslash
                    \<and> 32 \<le> (of_char c :: nat) \<and> (of_char c :: nat) \<noteq> 127) s"

definition plain_optional_name :: "string option \<Rightarrow> bool" where
  "plain_optional_name name = (case name of None \<Rightarrow> True | Some s \<Rightarrow> plain_name s)"

text \<open>Every opening parenthesis of a text is closed and every closing one was opened
  (string literals inside the text are not told apart).\<close>

fun balanced_from :: "nat \<Rightarrow> string \<Rightarrow> bool" where
  "balanced_from depth [] = (depth = 0)"
| "balanced_from depth (c # cs) =
     (if c = CHR ''('' then balanced_from (Suc depth) cs
      else if c = CHR '')'' then 0 < depth \<and> balanced_from (depth - 1) cs
      else balanced_from depth cs)"

definition balanced_parentheses :: "string \<Rightarrow> bool" where
  "balanced_parentheses s = balanced_from 0 s"

text \<open>The rule that \<open>UnivariateAnalysis.show\<close> displays after a column.\<close>

definition is_rule :: "event \<Rightarrow> bool" where
  "is_rule e = (e = Markdown ''---'')"

text \<open>Example data: a frame with a column x of floats and a column k of strings; the
  section \<open>BivariateAnalysis(columns=['x'], color_col='k')\<close>; and the section
  \<open>BivariateAnalysis(verbosity_pairplot=1)\<close>.\<close>

definition example_frame :: dataframe where
  "example_frame =
     \<lparr>df_index = [],
      df_data = [(''x'', [Some (PyFloat (1 / 2)), Some (PyFloat (3 / 2))]),
                 (''k'', [Some (PyStr ''u''), Some (PyStr ''v'')])]\<rparr>"

definition example_section :: BivariateAnalysis where
  "example_section =
     \<lparr>ba_verbosity = 0, ba_columns = Some [''x''],
      ba_subsections =
        [CorrelationPlot_impl \<lparr>cp_verbosity = 0, cp_columns = Some [''x''],
                               cp_columns_x = None, cp_columns_y = None\<rparr>,
         PairPlot_impl \<lparr>pp_verbosity = 0, pp_columns = Some [''x''], pp_columns_x = None,
                        pp_columns_y = None, pp_color_col = Some ''k''\<rparr>,
         ContingencyTable_impl \<lparr>ct_verbosity = 0, ct_columns = Some [''x''], ct_columns_x = None,
                                ct_columns_y = None, ct_columns_pairs = None\<rparr>],
      ba_subsections_0 = None, ba_columns_x = None, ba_columns_y = None,
      ba_columns_pairs = None, ba_color_col = Some ''k''\<rparr>"

definition pairplot_verbosity_1_section :: BivariateAnalysis where
  "pairplot_verbosity_1_section =
     \<lparr>ba_verbosity = 0, ba_columns = None,
      ba_subsections =
        [CorrelationPlot_impl \<lparr>cp_verbosity = 0, cp_columns = None,
                               cp_columns_x = None, cp_columns_y = None\<rparr>,
         PairPlot_impl \<lparr>pp_verbosity = 1, pp_columns = None, pp_columns_x = None,
                        pp_columns_y = None, pp_color_col = None\<rparr>,
         ContingencyTable_impl \<lparr>ct_verbosity = 0, ct_columns = None, ct_columns_x = None,
                                ct_columns_y = None, ct_columns_pairs = None\<rparr>],
      ba_subsections_0 = Some [Sub_CorrelationPlot, Sub_ContingencyTable],
      ba_columns_x = None, ba_columns_y = None,
      ba_columns_pairs = None, ba_color_col = None\<rparr>"

text \<open>A series of 51 distinct strings: a, aa, aaa and so on.\<close>

definition fifty_one_strings :: series where
  "fifty_one_strings = map (\<lambda>n. Some (PyStr (replicate (Suc n) (CHR ''a'')))) [0..<51]"

section \<open>A reference environment\<close>

text \<open>
  Modelled from the spec: stand-ins for the functions of the environment, used where a
  property is evaluated on concrete data. A series is boolean when its values are
  booleans, categorical when they are strings or at most ten distinct integers, numeric
  when they are numbers; \<open>get_title\<close> writes a Markdown heading; \<open>get_code\<close> gives a
  one-line definition; \<open>code_dedent\<close> removes the common indentation and the blank lines
  around the text; an index is time-ascending when its labels are time stamps in
  ascending order.
\<close>

definition values_all :: "(pyval \<Rightarrow> bool) \<Rightarrow> series \<Rightarrow> bool" where
  "values_all p s = list_all p (dropna s)"

definition ref_is_boolean :: "series \<Rightarrow> bool" where
  "ref_is_boolean s = values_all (\<lambda>v. case v of PyBool b \<Rightarrow> True | _ \<Rightarrow> False) s"

definition ref_is_numeric :: "series \<Rightarrow> bool" where
  "ref_is_numeric s = values_all (\<lambda>v. case v of PyInt i \<Rightarrow> True | PyFloat r \<Rightarrow> True | _ \<Rightarrow> False) s"

definition ref_is_categorical :: "series \<Rightarrow> bool" where
  "ref_is_categorical s =
     (\<not> ref_is_boolean s \<and>
      (values_all (\<lambda>v. case v of PyStr t \<Rightarrow> True | _ \<Rightarrow> False) s
       \<or> (values_all (\<lambda>v. case v of PyInt i \<Rightarrow> True | _ \<Rightarrow> False) s \<and> nunique s \<le> 10)))"

definition ref_infer_data_type :: "series \<Rightarrow> DataType" where
  "ref_infer_data_type s =
     (if ref_is_boolean s then BOOLEAN
      else if ref_is_categorical s then CATEGORICAL
      else if ref_is_numeric s then NUMERIC
      else DATETIME)"

definition ref_data_type_name :: "DataType \<Rightarrow> string" where
  "ref_data_type_name t =
     (case t of NUMERIC \<Rightarrow> ''numeric'' | CATEGORICAL \<Rightarrow> ''categorical''
      | BOOLEAN \<Rightarrow> ''boolean'' | DATETIME \<Rightarrow> ''datetime'')"

definition ref_get_title :: "string \<Rightarrow> nat \<Rightarrow> string" where
  "ref_get_title name level = replicate level (CHR ''#'') @ '' '' @ name"

definition ref_get_code :: "string \<Rightarrow> string" where
  "ref_get_code name = ''def '' @ name @ ''(...): ...''"

fun split_lines :: "string \<Rightarrow> string list" where
  "split_lines [] = [[]]"
| "split_lines (c # cs) =
     (if c = CHR 0x0A then [] # split_lines cs
      else (case split_lines cs of [] \<Rightarrow> [[c]] | l # ls \<Rightarrow> (c # l) # ls))"

fun join_lines :: "string list \<Rightarrow> string" where
  "join_lines [] = []"
| "join_lines [l] = l"
| "join_lines (l # ls) = l @ [CHR 0x0A] @ join_lines ls"

definition blank_line :: "string \<Rightarrow> bool" where
  "blank_line l = list_all (\<lambda>c. c = CHR '' '') l"

definition indentation :: "string \<Rightarrow> nat" where
  "indentation l = length (takeWhile (\<lambda>c. c = CHR '' '') l)"

definition ref_code_dedent :: "string \<Rightarrow> string" where
  "ref_code_dedent code =
     (let ls = rev (dropWhile blank_line (rev (dropWhile blank_line (split_lines code))));
          indents = map indentation (filter (\<lambda>l. \<not> blank_line l) ls);
          margin = (case indents of [] \<Rightarrow> 0 | i # is \<Rightarrow> fold min is i)
      in join_lines (map (drop margin) ls))"

fun ascending :: "int list \<Rightarrow> bool" where
  "ascending [] = True"
| "ascending [t] = True"
| "ascending (t # u # ts) = (t \<le> u \<and> ascending (u # ts))"

definition ref_index_time_ascending :: "index_label list \<Rightarrow> bool" where
  "ref_index_time_ascending idx =
     (list_all (\<lambda>l. case l of Timestamp t \<Rightarrow> True | RangeLabel i \<Rightarrow> False) idx
      \<and> ascending (List.map_filter (\<lambda>l. case l of Timestamp t \<Rightarrow> Some t | RangeLabel i \<Rightarrow> None) idx))"

definition ref_env :: env where
  "ref_env =
     \<lparr>is_numeric = ref_is_numeric, is_categorical = ref_is_categorical,
      is_boolean = ref_is_boolean, infer_data_type = ref_infer_data_type,
      infer_data_type_name = (\<lambda>s. ref_data_type_name (ref_infer_data_type s)),
      get_code = ref_get_code, code_dedent = ref_code_dedent, get_title = ref_get_title,
      index_time_ascending = ref_index_time_ascending\<rparr>"


section \<open>Properties\<close>

subsection \<open>Descriptive statistics\<close>



subsection \<open>Most frequent values\<close>

















subsection \<open>Auxiliary facts\<close>

lemma df_getitem_present: "col \<in> set (df_columns df) \<Longrightarrow> \<exists>s. df_getitem df col = Inr s"
  by (auto simp: df_columns_def df_getitem_def map_of_eq_None_iff split: option.splits)


lemma filterE_total:
  "(\<And>x. x \<in> set xs \<Longrightarrow> p x = Inr (q x)) \<Longrightarrow> filterE p xs = Inr (filter q xs)"
  by (induction xs) (simp_all add: bindE_def)

lemma filterE_result:
  "filterE p xs = Inr ys \<Longrightarrow> ys = filter (\<lambda>x. p x = Inr True) xs"
  by (induction xs arbitrary: ys) (auto simp: bindE_def split: sum.splits if_splits)


lemma filterE_never_True:
  "(\<And>x. p x \<noteq> Inr True) \<Longrightarrow> filterE p xs = Inr ys \<Longrightarrow> ys = []"
  by (induction xs arbitrary: ys) (auto simp: bindE_def split: sum.splits if_splits)

lemma select_columns_present:
  "set cols \<subseteq> set (df_columns df) \<Longrightarrow>
   select_columns test df cols
     = Inr (filter (\<lambda>col. case df_getitem df col of Inr s \<Rightarrow> test s | Inl e \<Rightarrow> False) cols)"
  unfolding select_columns_def
  by (rule filterE_total) (auto simp: bindE_def dest!: df_getitem_present)

lemma select_columns_result:
  "select_columns test df cols = Inr cols' \<Longrightarrow>
   cols' = filter (\<lambda>col. case df_getitem df col of Inr s \<Rightarrow> test s | Inl e \<Rightarrow> False) cols"
proof -
  assume "select_columns test df cols = Inr cols'"
  then have "cols' = filter (\<lambda>col. bindE (df_getitem df col) (\<lambda>s. Inr (test s)) = Inr True) cols"
    unfolding select_columns_def by (rule filterE_result)
  moreover have "(bindE (df_getitem df col) (\<lambda>s. Inr (test s)) = Inr True)
        = (case df_getitem df col of Inr s \<Rightarrow> test s | Inl e \<Rightarrow> False)" for col
    by (simp add: bindE_def split: sum.splits)
  ultimately show ?thesis by simp
qed


lemma not_ValueError_Inr [simp]: "not_ValueError (Inr x)"
  by (simp add: not_ValueError_def)





lemma for_each_no_error:
  "(\<And>x. x \<in> set xs \<Longrightarrow> snd (f x) = None) \<Longrightarrow> for_each f xs = (concat (map (\<lambda>x. fst (f x)) xs), None)"
  by (induction xs) (simp_all add: no_output_def and_then_def)





subsection \<open>Exactly one of \<open>columns_x\<close>, \<open>columns_y\<close>\<close>



lemma BivariateAnalysis_init_ValueError:
  "exactly_one_specified columns_x columns_y \<Longrightarrow>
   BivariateAnalysis_init subsections verbosity columns columns_x columns_y columns_pairs
     verbosity_correlations verbosity_pairplot verbosity_contingency_table color_col = Inl ValueError"
  by (simp add: BivariateAnalysis_init_def exactly_one_specified_def Let_def)





subsection \<open>Resolving the columns of a correlation plot\<close>

text \<open>
  C5. With \<open>columns\<close>, \<open>columns_x\<close> and \<open>columns_y\<close> all unspecified,
  \<open>_get_columns_x_y\<close> returns twice the list of the numeric columns of the frame, in the
  order of the frame. With \<open>columns_x\<close> and \<open>columns_y\<close> both given, each list it
  returns is the given list without the columns that are not numeric columns of the frame,
  in the given order; it does return when the given columns are columns of the frame (a
  missing one raises KeyError).
\<close>

theorem get_columns_x_y_resolution:
  "get_columns_x_y env df None None None
     = Inr (filter (numeric_column env df) (df_columns df), filter (numeric_column env df) (df_columns df))
   \<and> (get_columns_x_y env df columns (Some xs) (Some ys) = Inr (xs', ys')
        \<longrightarrow> xs' = filter (numeric_column env df) xs \<and> ys' = filter (numeric_column env df) ys)
   \<and> (set xs \<subseteq> set (df_columns df) \<and> set ys \<subseteq> set (df_columns df)
        \<longrightarrow> get_columns_x_y env df columns (Some xs) (Some ys)
            = Inr (filter (numeric_column env df) xs, filter (numeric_column env df) ys))"
proof (intro conjI impI)
  have "select_columns (is_numeric env) df (df_columns df)
          = Inr (filter (numeric_column env df) (df_columns df))"
    using select_columns_present [of "df_columns df" df "is_numeric env"]
    by (simp add: numeric_column_def [abs_def])
  then show "get_columns_x_y env df None None None
     = Inr (filter (numeric_column env df) (df_columns df), filter (numeric_column env df) (df_columns df))"
    by (simp add: get_columns_x_y_def columns_x_y_or_def bindE_def)
next
  assume "get_columns_x_y env df columns (Some xs) (Some ys) = Inr (xs', ys')"
  then have "select_columns (is_numeric env) df xs = Inr xs'"
    and "select_columns (is_numeric env) df ys = Inr ys'"
    by (auto simp: get_columns_x_y_def columns_x_y_or_def bindE_def split: sum.splits)
  then show "xs' = filter (numeric_column env df) xs" and "ys' = filter (numeric_column env df) ys"
    by (auto dest!: select_columns_result simp: numeric_column_def [abs_def])
next
  assume "set xs \<subseteq> set (df_columns df) \<and> set ys \<subseteq> set (df_columns df)"
  then have "select_columns (is_numeric env) df xs = Inr (filter (numeric_column env df) xs)"
    and "select_columns (is_numeric env) df ys = Inr (filter (numeric_column env df) ys)"
    by (simp_all add: select_columns_present numeric_column_def [abs_def])
  then show "get_columns_x_y env df columns (Some xs) (Some ys)
            = Inr (filter (numeric_column env df) xs, filter (numeric_column env df) ys)"
    by (simp add: get_columns_x_y_def columns_x_y_or_def bindE_def)
qed

text \<open>The theorem on a frame with a numeric column x and a string column s, for
  \<open>columns_x = ['x', 's']\<close> and \<open>columns_y = ['s']\<close>.\<close>

theorem get_columns_x_y_resolution_witness:
  "set [''x'', ''s''] \<subseteq> set (df_columns
       \<lparr>df_index = [], df_data = [(''x'', [Some (PyInt 1)]), (''s'', [Some (PyStr ''u'')])]\<rparr>)
   \<and> get_columns_x_y ref_env
       \<lparr>df_index = [], df_data = [(''x'', [Some (PyInt 1)]), (''s'', [Some (PyStr ''u'')])]\<rparr>
       None (Some [''x'', ''s'']) (Some [''s'']) = Inr ([''x''], [])
   \<and> get_columns_x_y ref_env
       \<lparr>df_index = [], df_data = [(''x'', [Some (PyInt 1)]), (''s'', [Some (PyStr ''u'')])]\<rparr>
       None None None = Inr ([''x''], [''x''])"
proof -
  let ?df = "\<lparr>df_index = [], df_data = [(''x'', [Some (PyInt 1)]), (''s'', [Some (PyStr ''u'')])]\<rparr>"
  have present: "set [''x'', ''s''] \<subseteq> set (df_columns ?df)"
    by (simp add: df_columns_def)
  have x: "numeric_column ref_env ?df ''x''"
    by (simp add: numeric_column_def df_getitem_def ref_env_def ref_is_numeric_def values_all_def
        dropna_def List.map_filter_simps)
  have s: "\<not> numeric_column ref_env ?df ''s''"
    by (simp add: numeric_column_def df_getitem_def ref_env_def ref_is_numeric_def values_all_def
        dropna_def List.map_filter_simps)
  have both: "set [''x'', ''s''] \<subseteq> set (df_columns ?df) \<and> set [''s''] \<subseteq> set (df_columns ?df)"
    by (simp add: df_columns_def)
  note resolution = get_columns_x_y_resolution [where env = ref_env and df = ?df and columns = None
        and xs = "[''x'', ''s'']" and ys = "[''s'']"]
  have given: "get_columns_x_y ref_env ?df None (Some [''x'', ''s'']) (Some [''s''])
      = Inr (filter (numeric_column ref_env ?df) [''x'', ''s''], filter (numeric_column ref_env ?df) [''s''])"
    by (rule mp [OF conjunct2 [OF conjunct2 [OF resolution]] both])
  have unspecified: "get_columns_x_y ref_env ?df None None None
      = Inr (filter (numeric_column ref_env ?df) (df_columns ?df),
             filter (numeric_column ref_env ?df) (df_columns ?df))"
    by (rule conjunct1 [OF resolution])
  have cols: "df_columns ?df = [''x'', ''s'']"
    by (simp add: df_columns_def)
  show ?thesis
    by (simp only: given unspecified cols) (simp add: x s)
qed


subsection \<open>Contingency tables with a threshold of zero\<close>

lemma isnull_all_dropna: "isnull_all s = (dropna s = [])"
  by (induction s) (auto simp: isnull_all_def dropna_def List.map_filter_simps split: option.splits)

lemma nunique_zero: "(nunique s = 0) = isnull_all s"
  by (simp add: nunique_def isnull_all_dropna)

lemma include_column_threshold_zero: "include_column df 0 col \<noteq> Inr True"
  by (cases "df_getitem df col") (auto simp: include_column_def bindE_def nunique_zero)

lemma include_column_pair_threshold_zero: "include_column_pair df 0 p \<noteq> Inr True"
  using include_column_threshold_zero [of df "snd p"]
  by (cases "include_column df 0 (fst p)") (auto simp: include_column_pair_def bindE_def)

lemma contingency_tables_threshold_zero_events:
  "fst (contingency_tables df columns columns_x columns_y columns_pairs 0) = []"
proof -
  have key: "fst (with_value (filterE (include_column_pair df 0) ps)
        (\<lambda>pairs. for_each (\<lambda>(column1, column2). contingency_table df column1 column2) pairs)) = []" for ps
  proof (cases "filterE (include_column_pair df 0) ps")
    case (Inl e)
    then show ?thesis by (simp add: with_value_def raise_def)
  next
    case (Inr kept)
    then have "kept = []"
      using filterE_never_True [of "include_column_pair df 0" ps kept]
        include_column_pair_threshold_zero by blast
    with Inr show ?thesis by (simp add: with_value_def no_output_def)
  qed
  have "fst (with_value (bindE r (\<lambda>pairs. filterE (include_column_pair df 0) pairs))
        (\<lambda>pairs. for_each (\<lambda>(column1, column2). contingency_table df column1 column2) pairs)) = []" for r
    using key by (cases r) (simp_all add: bindE_def with_value_def raise_def)
  then show ?thesis
    by (simp add: contingency_tables_def raise_def)
qed

text \<open>
  C10. With \<open>table_threshold = 0\<close> the inclusion test of \<open>contingency_tables\<close> holds of
  no column (a column without distinct values is all null), so no table is displayed,
  whatever the frame and the column parameters are. A negative threshold switches the
  test on the number of distinct values off: only the all-null columns are left out. From
  zero on the test is in force.
\<close>

theorem contingency_tables_threshold_zero:
  "include_column df 0 col \<noteq> Inr True
   \<and> fst (contingency_tables df columns columns_x columns_y columns_pairs 0) = []
   \<and> (table_threshold < 0 \<longrightarrow>
        include_column df table_threshold col
          = bindE (df_getitem df col) (\<lambda>s. Inr (\<not> isnull_all s)))
   \<and> (0 \<le> table_threshold \<longrightarrow>
        include_column df table_threshold col
          = bindE (df_getitem df col)
              (\<lambda>s. Inr (int (nunique s) \<le> table_threshold \<and> \<not> isnull_all s)))"
  by (simp add: include_column_threshold_zero contingency_tables_threshold_zero_events)
     (auto simp: include_column_def)

text \<open>The theorem on a frame with the columns a (1, 2) and b (u, v): no table at threshold
  0; column a is included at threshold -1 and excluded at threshold 1.\<close>

theorem contingency_tables_threshold_zero_witness:
  "fst (contingency_tables
          \<lparr>df_index = [], df_data = [(''a'', [Some (PyInt 1), Some (PyInt 2)]),
                                     (''b'', [Some (PyStr ''u''), Some (PyStr ''v'')])]\<rparr>
          None None None None 0) = []
   \<and> include_column
        \<lparr>df_index = [], df_data = [(''a'', [Some (PyInt 1), Some (PyInt 2)]),
                                   (''b'', [Some (PyStr ''u''), Some (PyStr ''v'')])]\<rparr> (- 1) ''a''
       = Inr True
   \<and> include_column
        \<lparr>df_index = [], df_data = [(''a'', [Some (PyInt 1), Some (PyInt 2)]),
                                   (''b'', [Some (PyStr ''u''), Some (PyStr ''v'')])]\<rparr> 1 ''a''
       = Inr False"
proof -
  let ?df = "\<lparr>df_index = [], df_data = [(''a'', [Some (PyInt 1), Some (PyInt 2)]),
                                     (''b'', [Some (PyStr ''u''), Some (PyStr ''v'')])]\<rparr>"
  have g: "df_getitem ?df ''a'' = Inr [Some (PyInt 1), Some (PyInt 2)]"
    by (simp add: df_getitem_def)
  have n: "nunique [Some (PyInt 1), Some (PyInt 2)] = 2" "\<not> isnull_all [Some (PyInt 1), Some (PyInt 2)]"
    by (simp_all add: nunique_def dropna_def List.map_filter_simps isnull_all_def)
  show ?thesis
    using contingency_tables_threshold_zero [of ?df "''a''" None None None None "- 1"]
      contingency_tables_threshold_zero [of ?df "''a''" None None None None 1]
    by (simp add: g n bindE_def)
qed


subsection \<open>Numeric columns in UMAP and autocorrelation\<close>

lemma df_getitem_series:
  "col \<in> set (df_columns df) \<Longrightarrow> df_getitem df col = Inr (df_series df col)"
  by (auto simp: df_columns_def df_getitem_def df_series_def map_of_eq_None_iff split: option.splits)




lemma length_filter_same: "(length (filter P xs) = length xs) = (filter P xs = xs)"
  by (metis filter_id_conv length_filter_less less_irrefl)
















subsection \<open>Dispatch of the univariate analysis\<close>

lemma map_of_select_data:
  "select_data data cols = Inr data' \<Longrightarrow> map fst data' = cols
     \<and> (\<forall>c\<in>set cols. map_of data' c = map_of data c)"
proof (induction cols arbitrary: data')
  case Nil
  then show ?case by simp
next
  case (Cons col cols)
  then obtain s rest where s: "map_of data col = Some s"
    and rest: "select_data data cols = Inr rest" and d: "data' = (col, s) # rest"
    by (auto simp: bindE_def split: option.splits sum.splits)
  from Cons.IH [OF rest] show ?case
    by (auto simp: d s)
qed

lemma df_getitem_list_columns:
  "df_getitem_list df cols = Inr df' \<Longrightarrow> df_columns df' = cols"
  by (auto simp: df_getitem_list_def bindE_def df_columns_def split: sum.splits
      dest: map_of_select_data)

lemma df_getitem_list_series:
  "df_getitem_list df cols = Inr df' \<Longrightarrow> c \<in> set cols \<Longrightarrow> df_series df' c = df_series df c"
  by (auto simp: df_getitem_list_def bindE_def df_series_def split: sum.splits
      dest!: map_of_select_data)

lemma columns_loop_total:
  assumes "\<And>col s. snd (body col s) = None"
  shows "for_each (\<lambda>col. with_value (df_getitem df col) (body col)) (df_columns df)
         = (concat (map (\<lambda>col. fst (body col (df_series df col))) (df_columns df)), None)"
proof -
  have "for_each (\<lambda>col. with_value (df_getitem df col) (body col)) (df_columns df)
        = (concat (map (\<lambda>col. fst (with_value (df_getitem df col) (body col))) (df_columns df)), None)"
    by (intro for_each_no_error) (simp add: df_getitem_series with_value_def assms)
  also have "map (\<lambda>col. fst (with_value (df_getitem df col) (body col))) (df_columns df)
      = map (\<lambda>col. fst (body col (df_series df col))) (df_columns df)"
    by (intro map_cong) (simp_all add: df_getitem_series with_value_def)
  finally show ?thesis .
qed

lemma univariate_analysis_column_events:
  "univariate_analysis_column env col series =
     (if isnull_all series
      then ([Markdown (''## *'' @ col @ '' - NULL*''),
             Markdown ''The column contains only null values.''], None)
      else if infer_data_type env series = CATEGORICAL \<or> infer_data_type env series = BOOLEAN
      then ([Markdown (''## *'' @ col @ '' - '' @ infer_data_type_name env series @ ''*''),
             FrequencyTable (top_frequent_values series 5),
             if 50 < nunique series then BarPlotWarning 50
             else BarPlot (map (\<lambda>(v, c). (v, of_nat c)) (value_counts series))], None)
      else ([Markdown (''## *'' @ col @ '' - '' @ infer_data_type_name env series @ ''*''),
             StatisticsTables series default_descriptive_statistics default_quantile_statistics,
             Histogram (dropna series) None False True], None))"
  by (simp add: univariate_analysis_column_def and_then_def display_def top_most_frequent_def
      bar_plot_def numeric_statistics_def histogram_def or_else_def Let_def)

lemma univariate_analysis_column_no_error: "snd (univariate_analysis_column env col series) = None"
  by (simp add: univariate_analysis_column_events)

lemma show_column_events:
  "show_column env col series =
     (if isnull_all series then univariate_analysis_column env col series
      else (fst (univariate_analysis_column env col series) @ [Markdown ''---''], None))"
  by (simp add: show_column_def univariate_analysis_column_def and_then_def display_def
      top_most_frequent_def bar_plot_def numeric_statistics_def histogram_def or_else_def Let_def)

lemma show_column_no_error: "snd (show_column env col series) = None"
  by (simp add: show_column_events univariate_analysis_column_no_error)

lemma univariate_analysis_events:
  assumes "(case columns of Some cols \<Rightarrow> df_getitem_list df cols | None \<Rightarrow> Inr df) = Inr analysed"
  shows "univariate_analysis env df columns
         = (concat (map (\<lambda>col. fst (univariate_analysis_column env col (df_series analysed col)))
                      (df_columns analysed)), None)"
  using assms columns_loop_total [of "univariate_analysis_column env" analysed]
  by (simp add: univariate_analysis_def with_value_def univariate_analysis_column_no_error)

lemma UnivariateAnalysis_show_events:
  assumes "(case ua_columns self of Some cols \<Rightarrow> df_getitem_list df cols | None \<Rightarrow> Inr df) = Inr analysed"
  shows "UnivariateAnalysis_show env self df
         = (Markdown (get_title env ''Univariate Analysis'' 1)
            # concat (map (\<lambda>col. fst (show_column env col (df_series analysed col)))
                        (df_columns analysed)), None)"
  using assms columns_loop_total [of "show_column env" analysed]
  by (simp add: UnivariateAnalysis_show_def with_value_def show_column_no_error and_then_def display_def)

text \<open>
  C6, as amended. \<open>univariate_analysis\<close> treats every column of the analysed frame by
  its inferred type. A column that is all null gets the NULL heading and the note, and
  nothing else. A column inferred CATEGORICAL or BOOLEAN gets its heading, the table of
  its most frequent values and, when it has at most 50 distinct values, a bar plot; with
  more distinct values \<open>bar_plot\<close> only issues a warning. Every other column gets its
  heading, the tables of descriptive and quantile statistics and a histogram.
  \<open>UnivariateAnalysis.show\<close> does the same under the title of the section, with a rule
  after every column that is not all null.
\<close>

theorem univariate_analysis_dispatch:
  "univariate_analysis_column env col series =
     (if isnull_all series
      then ([Markdown (''## *'' @ col @ '' - NULL*''),
             Markdown ''The column contains only null values.''], None)
      else if infer_data_type env series = CATEGORICAL \<or> infer_data_type env series = BOOLEAN
      then ([Markdown (''## *'' @ col @ '' - '' @ infer_data_type_name env series @ ''*''),
             FrequencyTable (top_frequent_values series 5),
             if 50 < nunique series then BarPlotWarning 50
             else BarPlot (map (\<lambda>(v, c). (v, of_nat c)) (value_counts series))], None)
      else ([Markdown (''## *'' @ col @ '' - '' @ infer_data_type_name env series @ ''*''),
             StatisticsTables series default_descriptive_statistics default_quantile_statistics,
             Histogram (dropna series) None False True], None))
   \<and> show_column env col series =
       (if isnull_all series then univariate_analysis_column env col series
        else (fst (univariate_analysis_column env col series) @ [Markdown ''---''], None))
   \<and> ((case columns of Some cols \<Rightarrow> df_getitem_list df cols | None \<Rightarrow> Inr df) = Inr analysed
        \<longrightarrow> univariate_analysis env df columns
              = (concat (map (\<lambda>col. fst (univariate_analysis_column env col (df_series analysed col)))
                           (df_columns analysed)), None)
          \<and> UnivariateAnalysis_show env \<lparr>ua_df = df0, ua_verbosity = verbosity, ua_columns = columns\<rparr> df
              = (Markdown (get_title env ''Univariate Analysis'' 1)
                 # concat (map (\<lambda>col. fst (show_column env col (df_series analysed col)))
                             (df_columns analysed)), None))"
  using UnivariateAnalysis_show_events
          [where self = "\<lparr>ua_df = df0, ua_verbosity = verbosity, ua_columns = columns\<rparr>"
             and df = df and analysed = analysed and env = env]
  by (intro conjI impI univariate_analysis_column_events show_column_events
        univariate_analysis_events) simp_all

text \<open>The theorem on a frame with a numeric column n, a string column c and an all-null
  column z, analysed in the order c, n, z.\<close>

theorem univariate_analysis_dispatch_witness:
  "univariate_analysis ref_env
     \<lparr>df_index = [],
      df_data = [(''n'', [Some (PyFloat (1 / 2)), None]), (''c'', [Some (PyStr ''u''), None]),
                 (''z'', [None, None])]\<rparr> (Some [''c'', ''n'', ''z''])
   = ([Markdown ''## *c - categorical*'',
       FrequencyTable [(PyStr ''u'', 1, Some 50), (PyStr ''Other values count'', 0, Some 0),
                       (PyStr ''Null'', 1, Some 50)],
       BarPlot [(PyStr ''u'', 1)],
       Markdown ''## *n - numeric*'',
       StatisticsTables [Some (PyFloat (1 / 2)), None] default_descriptive_statistics
         default_quantile_statistics,
       Histogram [PyFloat (1 / 2)] None False True,
       Markdown ''## *z - NULL*'', Markdown ''The column contains only null values.''], None)"
proof -
  let ?df = "\<lparr>df_index = [],
      df_data = [(''n'', [Some (PyFloat (1 / 2)), None]), (''c'', [Some (PyStr ''u''), None]),
                 (''z'', [None, None])]\<rparr>"
  let ?an = "\<lparr>df_index = [],
      df_data = [(''c'', [Some (PyStr ''u''), None]), (''n'', [Some (PyFloat (1 / 2)), None]),
                 (''z'', [None, None])]\<rparr>"
  have sel: "(case Some [''c'', ''n'', ''z''] of Some cols \<Rightarrow> df_getitem_list ?df cols | None \<Rightarrow> Inr ?df)
      = Inr ?an"
    by (simp add: df_getitem_list_def bindE_def)
  have c: "univariate_analysis_column ref_env ''c'' [Some (PyStr ''u''), None]
      = ([Markdown ''## *c - categorical*'',
       FrequencyTable [(PyStr ''u'', 1, Some 50), (PyStr ''Other values count'', 0, Some 0),
                       (PyStr ''Null'', 1, Some 50)],
       BarPlot [(PyStr ''u'', 1)]], None)"
    by code_simp
  have n: "univariate_analysis_column ref_env ''n'' [Some (PyFloat (1 / 2)), None]
      = ([Markdown ''## *n - numeric*'',
       StatisticsTables [Some (PyFloat (1 / 2)), None] default_descriptive_statistics
         default_quantile_statistics,
       Histogram [PyFloat (1 / 2)] None False True], None)"
    by code_simp
  have z: "univariate_analysis_column ref_env ''z'' [None, None]
      = ([Markdown ''## *z - NULL*'', Markdown ''The column contains only null values.''], None)"
    by code_simp
  from univariate_analysis_dispatch [where env = ref_env and columns = "Some [''c'', ''n'', ''z'']"
      and df = ?df and analysed = ?an]
  have "univariate_analysis ref_env ?df (Some [''c'', ''n'', ''z''])
              = (concat (map (\<lambda>col. fst (univariate_analysis_column ref_env col (df_series ?an col)))
                           (df_columns ?an)), None)"
    using sel by blast
  then show ?thesis
    by (simp add: df_columns_def df_series_def c n z)
qed

lemma dropna_fifty_one_strings:
  "dropna fifty_one_strings = map (\<lambda>n. PyStr (replicate (Suc n) (CHR ''a''))) [0..<51]"
proof -
  have "dropna (map (\<lambda>n. Some (g n)) ns) = map g ns" for g :: "nat \<Rightarrow> pyval" and ns
    by (induction ns) (simp_all add: dropna_def List.map_filter_simps)
  then show ?thesis by (simp only: fifty_one_strings_def)
qed

lemma nunique_fifty_one_strings: "nunique fifty_one_strings = 51"
proof -
  have "inj_on (\<lambda>n. PyStr (replicate (Suc n) (CHR ''a''))) (set [0..<51])"
    by (rule inj_onI) (auto dest: arg_cong [where f = length])
  then have "distinct (dropna fifty_one_strings)"
    by (simp only: dropna_fifty_one_strings distinct_map distinct_upt)
  then show ?thesis
    by (simp add: nunique_def distinct_remdups_id dropna_fifty_one_strings)
qed

lemma fifty_one_strings_categorical:
  "\<not> isnull_all fifty_one_strings \<and> infer_data_type ref_env fifty_one_strings = CATEGORICAL"
proof -
  have "\<not> isnull_all fifty_one_strings"
    by (simp add: isnull_all_dropna dropna_fifty_one_strings)
  moreover have "\<not> ref_is_boolean fifty_one_strings"
    by (auto simp: ref_is_boolean_def values_all_def dropna_fifty_one_strings list_all_iff
        intro: exI [where x = 0])
  moreover have "ref_is_categorical fifty_one_strings"
    using \<open>\<not> ref_is_boolean fifty_one_strings\<close>
    by (simp add: ref_is_categorical_def values_all_def dropna_fifty_one_strings list_all_iff)
  ultimately show ?thesis
    by (simp add: ref_env_def ref_infer_data_type_def)
qed

text \<open>
  C6 as stated promises a bar plot for every categorical column. A column of 51 distinct
  strings is not all null and is inferred categorical, and its analysis displays no bar
  plot: \<open>bar_plot\<close> finds more than \<open>plotting_threshold = 50\<close> distinct values.
\<close>

theorem bar_plot_counterexample:
  "\<not> isnull_all fifty_one_strings
   \<and> infer_data_type ref_env fifty_one_strings = CATEGORICAL
   \<and> \<not> list_ex is_bar_plot
         (fst (univariate_analysis ref_env \<lparr>df_index = [], df_data = [(''c'', fifty_one_strings)]\<rparr> None))"
proof -
  have "univariate_analysis ref_env \<lparr>df_index = [], df_data = [(''c'', fifty_one_strings)]\<rparr> None
      = (fst (univariate_analysis_column ref_env ''c'' fifty_one_strings), None)"
    by (simp add: univariate_analysis_events [where analysed = "\<lparr>df_index = [], df_data = [(''c'', fifty_one_strings)]\<rparr>"]
        df_columns_def df_series_def)
  then show ?thesis
    using fifty_one_strings_categorical
    by (simp add: univariate_analysis_column_events nunique_fifty_one_strings is_bar_plot_def)
qed


subsection \<open>The call exported by the pair plot\<close>

text \<open>
  C1. For a \<open>PairPlot\<close> with \<open>columns\<close> specified and \<open>columns_x\<close>, \<open>columns_y\<close>
  unspecified the specification asks for a call with balanced parentheses. The branch of
  \<open>PairPlot.add_cells\<close> for \<open>columns\<close> already closes the call, and the closing
  parenthesis is appended once more at the end: the exported text ends in two closing
  parentheses, where \<open>CorrelationPlot.add_cells\<close> writes one. For \<open>columns = ['a']\<close> at
  verbosity 0 the code cell is \<open>plot_pairplot(df=df, columns=['a']))\<close>, which is not
  balanced.
\<close>

theorem PairPlot_add_cells_extra_parenthesis:
  "PairPlot_default_call
      \<lparr>pp_verbosity = verbosity, pp_columns = Some cols, pp_columns_x = None,
       pp_columns_y = None, pp_color_col = None\<rparr>
     = ''plot_pairplot(df=df, columns='' @ py_repr_list cols @ ''))''
   \<and> CorrelationPlot_default_call
      \<lparr>cp_verbosity = verbosity, cp_columns = Some cols, cp_columns_x = None, cp_columns_y = None\<rparr>
     = ''plot_correlations(df=df, columns='' @ py_repr_list cols @ '')''
   \<and> bindE (PairPlot_init 0 (Some [''a'']) None None None)
         (\<lambda>section. Inr (PairPlot_add_cells ref_env section []))
     = Inr [MarkdownCell ''## Pairplot'', CodeCell ''plot_pairplot(df=df, columns=['a']))'']
   \<and> \<not> balanced_parentheses ''plot_pairplot(df=df, columns=['a']))''"
proof (intro conjI)
  show "PairPlot_default_call
      \<lparr>pp_verbosity = verbosity, pp_columns = Some cols, pp_columns_x = None,
       pp_columns_y = None, pp_color_col = None\<rparr>
     = ''plot_pairplot(df=df, columns='' @ py_repr_list cols @ ''))''"
    by (simp add: PairPlot_default_call_def)
  show "CorrelationPlot_default_call
      \<lparr>cp_verbosity = verbosity, cp_columns = Some cols, cp_columns_x = None, cp_columns_y = None\<rparr>
     = ''plot_correlations(df=df, columns='' @ py_repr_list cols @ '')''"
    by (simp add: CorrelationPlot_default_call_def)
  show "bindE (PairPlot_init 0 (Some [''a'']) None None None)
         (\<lambda>section. Inr (PairPlot_add_cells ref_env section []))
     = Inr [MarkdownCell ''## Pairplot'', CodeCell ''plot_pairplot(df=df, columns=['a']))'']"
    by code_simp
  show "\<not> balanced_parentheses ''plot_pairplot(df=df, columns=['a']))''"
    by code_simp
qed


subsection \<open>Facts about the exported text\<close>

lemma replace_from_single: "replace_from [c] [] 0 s = filter (\<lambda>x. x \<noteq> c) s"
  by (induction s) auto

lemma py_replace_single: "py_replace [c] [] s = filter (\<lambda>x. x \<noteq> c) s"
  by (simp add: py_replace_def replace_from_single)

lemma filter_py_join: "filter P (py_join sep parts) = py_join (filter P sep) (map (filter P) parts)"
  by (induction sep parts rule: py_join.induct) simp_all

lemma unquoted_subsection_literal:
  "filter (\<lambda>x. x \<noteq> single_quote) (py_repr_str (subsection_literal sub)) = subsection_literal sub"
  by (cases sub) (simp_all add: py_repr_str_def subsection_literal_def repr_char_def Let_def)

lemma subsections_argument:
  "py_replace [single_quote] ''''
     ('', subsections='' @ py_repr_list
         (map (\<lambda>sub. ''BivariateAnalysis.BivariateAnalysisSubsection.'' @ subsection_name sub) subs))
   = '', subsections='' @ subsections_literal subs"
proof -
  have "map (\<lambda>sub. ''BivariateAnalysis.BivariateAnalysisSubsection.'' @ subsection_name sub) subs
        = map subsection_literal subs"
    by (simp add: subsection_literal_def [abs_def])
  moreover have "map (filter (\<lambda>x. x \<noteq> single_quote)) (map py_repr_str (map subsection_literal subs))
        = map subsection_literal subs"
    by (induction subs) (simp_all add: unquoted_subsection_literal)
  ultimately have "filter (\<lambda>x. x \<noteq> single_quote)
        (py_join '', '' (map py_repr_str
           (map (\<lambda>sub. ''BivariateAnalysis.BivariateAnalysisSubsection.'' @ subsection_name sub) subs)))
      = py_join '', '' (map subsection_literal subs)"
    by (simp only: filter_py_join) simp
  then show ?thesis
    by (simp only: py_replace_single py_repr_list_def subsections_literal_def filter_append) simp
qed

lemma repr_plain_name: "plain_name s \<Longrightarrow> py_repr_str s = [single_quote] @ s @ [single_quote]"
proof -
  assume plain: "plain_name s"
  then have "single_quote \<notin> set s"
    by (auto simp: plain_name_def list_all_iff)
  moreover have "concat (map (repr_char single_quote) s) = s"
    using plain by (induction s) (auto simp: plain_name_def repr_char_def Let_def)
  ultimately show ?thesis
    by (simp add: py_repr_str_def Let_def)
qed


subsection \<open>The aggregate call at verbosity 0\<close>

lemma impl_add_cells_append: "impl_add_cells env sub cells = cells @ impl_add_cells env sub []"
  by (cases sub)
     (simp_all add: CorrelationPlot_add_cells_def PairPlot_add_cells_def ContingencyTable_add_cells_def
        Let_def)

lemma fold_add_cells:
  "fold (\<lambda>sub cells. if 0 < impl_verbosity sub then impl_add_cells env sub cells else cells) subs cells
   = cells @ concat (map (\<lambda>sub. impl_add_cells env sub [])
                       (filter (\<lambda>sub. 0 < impl_verbosity sub) subs))"
proof (induction subs arbitrary: cells)
  case Nil
  then show ?case by simp
next
  case (Cons sub subs)
  show ?case
    using impl_add_cells_append [of env sub cells]
    by (simp add: Cons.IH)
qed

lemma columns_x_y_or_given: "columns_x_y_or (Some xs) (Some ys) fallback = Inr (xs, ys)"
  by (simp add: columns_x_y_or_def)

lemma get_columns_x_y_ignores_columns:
  "get_columns_x_y env df columns (Some xs) (Some ys) = get_columns_x_y env df None (Some xs) (Some ys)"
  by (simp add: get_columns_x_y_def columns_x_y_or_given)

lemma plot_pairplot_ignores_columns:
  "plot_pairplot env df columns (Some xs) (Some ys) allow color
   = plot_pairplot env df None (Some xs) (Some ys) allow color"
  by (simp add: plot_pairplot_def columns_x_y_or_given)

lemma contingency_tables_ignores_columns:
  "contingency_tables df columns (Some xs) (Some ys) pairs t
   = contingency_tables df None (Some xs) (Some ys) pairs t"
  by (cases pairs) (simp_all add: contingency_tables_def columns_x_y_or_given)

lemma BivariateAnalysis_init_result:
  assumes "\<not> exactly_one_specified columns_x columns_y"
  shows "BivariateAnalysis_init subsections verbosity columns columns_x columns_y columns_pairs
           verbosity_correlations verbosity_pairplot verbosity_contingency_table color_col
         = Inr \<lparr>ba_verbosity = verbosity, ba_columns = columns,
                ba_subsections =
                  map (built_subsection (or_else verbosity_correlations verbosity)
                         (or_else verbosity_pairplot verbosity)
                         (or_else verbosity_contingency_table verbosity)
                         columns columns_x columns_y columns_pairs color_col)
                    (case subsections of None \<Rightarrow> all_subsections | Some subs \<Rightarrow> subs),
                ba_subsections_0 =
                  (let zero = filter (\<lambda>sub. lookup_subsection (or_else verbosity_correlations verbosity)
                                             (or_else verbosity_pairplot verbosity)
                                             (or_else verbosity_contingency_table verbosity) sub = 0)
                                (case subsections of None \<Rightarrow> all_subsections | Some subs \<Rightarrow> subs)
                   in if length zero
                         = length (case subsections of None \<Rightarrow> all_subsections | Some subs \<Rightarrow> subs)
                         \<and> subsections = None
                      then None else Some zero),
                ba_columns_x = columns_x, ba_columns_y = columns_y,
                ba_columns_pairs = columns_pairs, ba_color_col = color_col\<rparr>"
  using assms
  by (cases columns_x; cases columns_y; cases columns_pairs)
     (simp_all add: BivariateAnalysis_init_def exactly_one_specified_def Let_def bindE_def
        CorrelationPlot_init_def PairPlot_init_def ContingencyTable_init_def
        built_subsection_def [abs_def] columns_x_no_pairs_def columns_y_no_pairs_def)

lemma BivariateAnalysis_init_Inr:
  "BivariateAnalysis_init subsections verbosity columns columns_x columns_y columns_pairs
     verbosity_correlations verbosity_pairplot verbosity_contingency_table color_col = Inr section
   \<Longrightarrow> \<not> exactly_one_specified columns_x columns_y"
  using BivariateAnalysis_init_ValueError by fastforce

lemma impl_verbosity_built:
  "impl_verbosity (built_subsection vc vp vt columns cx cy pairs color sub) = lookup_subsection vc vp vt sub"
  by (cases sub) (simp_all add: built_subsection_def)

lemma impl_show_built:
  assumes "\<not> exactly_one_specified cx cy"
  shows "impl_show env (built_subsection vc vp vt columns cx cy pairs color sub) df
         = impl_show env (built_subsection 0 0 0 (carried_columns columns cx) cx cy pairs color sub) df"
proof (cases cx)
  case None
  then show ?thesis
    by (cases sub)
       (simp_all add: built_subsection_def carried_columns_def CorrelationPlot_show_def
          PairPlot_show_def ContingencyTable_show_def)
next
  case (Some xs)
  then obtain ys where ys: "cy = Some ys"
    using assms by (cases cy) (simp_all add: exactly_one_specified_def)
  have x: "columns_x_no_pairs columns (Some xs) pairs = Some xs"
    "columns_x_no_pairs None (Some xs) pairs = Some xs"
    by (simp_all add: columns_x_no_pairs_def split: option.splits)
  have y: "columns_y_no_pairs columns (Some xs) (Some ys) pairs = Some ys"
    "columns_y_no_pairs None (Some xs) (Some ys) pairs = Some ys"
    by (simp_all add: columns_y_no_pairs_def split: option.splits)
  show ?thesis
    unfolding Some ys
    by (cases sub)
       (simp_all add: built_subsection_def carried_columns_def x y CorrelationPlot_show_def
          PairPlot_show_def ContingencyTable_show_def plot_correlations_def plot_correlation_def
          get_columns_x_y_ignores_columns [of env df columns]
          plot_pairplot_ignores_columns [of env df columns]
          contingency_tables_ignores_columns [of df columns])
qed

lemma for_each_map: "for_each f (map g xs) = for_each (\<lambda>x. f (g x)) xs"
  by (induction xs) simp_all

lemma for_each_cong: "(\<And>x. x \<in> set xs \<Longrightarrow> f x = g x) \<Longrightarrow> for_each f xs = for_each g xs"
  by (induction xs) simp_all

lemma filter_all_same_length: "length (filter P xs) = length xs \<Longrightarrow> filter P xs = xs"
  by (simp add: length_filter_same)

lemma bivariate_analysis_of_call:
  assumes init: "BivariateAnalysis_init subsections verbosity columns cx cy pairs vc vp vt color = Inr section"
  shows "bivariate_analysis env df (ba_subsections_0 section) (carried_columns columns cx) cx cy pairs color
         = show_subsections env (filter (\<lambda>sub. impl_verbosity sub = 0) (ba_subsections section)) df"
proof -
  note ok = BivariateAnalysis_init_Inr [OF init]
  define subs_all where "subs_all = (case subsections of None \<Rightarrow> all_subsections | Some subs \<Rightarrow> subs)"
  define verbosities where "verbosities = lookup_subsection (or_else vc verbosity) (or_else vp verbosity)
      (or_else vt verbosity)"
  define zero where "zero = filter (\<lambda>sub. verbosities sub = 0) subs_all"
  have built: "ba_subsections section
        = map (built_subsection (or_else vc verbosity) (or_else vp verbosity) (or_else vt verbosity)
                 columns cx cy pairs color) subs_all"
    and zero0: "ba_subsections_0 section
        = (if length zero = length subs_all \<and> subsections = None then None else Some zero)"
    using init unfolding BivariateAnalysis_init_result [OF ok] subs_all_def zero_def verbosities_def
    by (auto simp: Let_def)
  have called: "(case ba_subsections_0 section of None \<Rightarrow> all_subsections | Some subs \<Rightarrow> subs) = zero"
  proof (cases "length zero = length subs_all \<and> subsections = None")
    case True
    then have "zero = subs_all"
      unfolding zero_def by (simp add: filter_all_same_length)
    moreover have "ba_subsections_0 section = None"
      unfolding zero0 using True by (rule if_P)
    ultimately show ?thesis
      using True by (simp add: subs_all_def)
  next
    case False
    then have "ba_subsections_0 section = Some zero"
      unfolding zero0 by (rule if_not_P)
    then show ?thesis by simp
  qed
  have carried_ok: "\<not> exactly_one_specified cx cy"
    by (rule ok)
  have left: "bivariate_analysis env df (ba_subsections_0 section) (carried_columns columns cx) cx cy pairs color
      = for_each (\<lambda>sub. impl_show env
            (built_subsection 0 0 0 (carried_columns columns cx) cx cy pairs color sub) df) zero"
    unfolding bivariate_analysis_def BivariateAnalysis_init_result [OF carried_ok]
    by (simp add: with_value_def show_subsections_def called for_each_map or_else_def)
  have "filter (\<lambda>sub. impl_verbosity sub = 0) (ba_subsections section)
      = map (built_subsection (or_else vc verbosity) (or_else vp verbosity) (or_else vt verbosity)
                 columns cx cy pairs color) zero"
    by (simp add: built filter_map comp_def impl_verbosity_built zero_def verbosities_def)
  then have right: "show_subsections env (filter (\<lambda>sub. impl_verbosity sub = 0) (ba_subsections section)) df
      = for_each (\<lambda>sub. impl_show env
            (built_subsection (or_else vc verbosity) (or_else vp verbosity) (or_else vt verbosity)
                 columns cx cy pairs color sub) df) zero"
    by (simp add: show_subsections_def for_each_map)
  show ?thesis
    unfolding left right
    by (rule for_each_cong) (rule impl_show_built [OF ok, symmetric])
qed

lemma optional_argument_None [simp]: "optional_argument name None = []"
  by (simp add: optional_argument_def)

lemma optional_argument_Some: "optional_argument name (Some text) = '', '' @ name @ ''='' @ text"
  by (simp add: optional_argument_def)

lemma BivariateAnalysis_code_call:
  assumes "\<not> exactly_one_specified (ba_columns_x self) (ba_columns_y self)"
    and "plain_optional_name (ba_color_col self)"
  shows "BivariateAnalysis_code self
         = bivariate_analysis_call (ba_subsections_0 self)
             (carried_columns (ba_columns self) (ba_columns_x self))
             (ba_columns_x self) (ba_columns_y self) (ba_columns_pairs self) (ba_color_col self)"
proof -
  have subs: "(case ba_subsections_0 self of
               Some subsections_0 \<Rightarrow>
                 ''bivariate_analysis(df=df'' @ py_replace [single_quote] ''''
                             ('', subsections='' @ py_repr_list (map (\<lambda>sub. ''BivariateAnalysis.BivariateAnalysisSubsection.'' @ subsection_name sub)
                         subsections_0))
             | None \<Rightarrow> ''bivariate_analysis(df=df'')
      = ''bivariate_analysis(df=df''
        @ optional_argument ''subsections'' (map_option subsections_literal (ba_subsections_0 self))"
  proof (cases "ba_subsections_0 self")
    case None
    then show ?thesis by simp
  next
    case (Some subsections_0)
    show ?thesis
      unfolding Some option.case option.map subsections_argument
      by (simp add: optional_argument_Some)
  qed
  have cols: "(case ba_columns_x self of
               Some xs \<Rightarrow> code @ '', columns_x='' @ py_repr_list xs
                            @ '', columns_y='' @ py_format_optional py_repr_list (ba_columns_y self)
             | None \<Rightarrow> (case ba_columns self of
                          Some cols \<Rightarrow> code @ '', columns='' @ py_repr_list cols
                        | None \<Rightarrow> code))
      = code @ optional_argument ''columns_x'' (map_option py_repr_list (ba_columns_x self))
        @ optional_argument ''columns_y'' (map_option py_repr_list (ba_columns_y self))
        @ optional_argument ''columns'' (map_option py_repr_list
            (carried_columns (ba_columns self) (ba_columns_x self)))" for code
    using assms(1)
    by (cases "ba_columns_x self"; cases "ba_columns_y self"; cases "ba_columns self")
       (simp_all add: exactly_one_specified_def optional_argument_Some carried_columns_def
          py_format_optional_def)
  have pairs: "(case ba_columns_pairs self of
               Some pairs \<Rightarrow> code @ '', columns_pairs='' @ py_repr_pairs pairs
             | None \<Rightarrow> code)
      = code @ optional_argument ''columns_pairs'' (map_option py_repr_pairs (ba_columns_pairs self))" for code
    by (cases "ba_columns_pairs self") (simp_all add: optional_argument_Some)
  have color: "(case ba_color_col self of
               Some color \<Rightarrow> code @ '', color_col='' @ [single_quote] @ color @ [single_quote]
             | None \<Rightarrow> code)
      = code @ optional_argument ''color_col'' (map_option py_repr_str (ba_color_col self))" for code
    using assms(2)
    by (cases "ba_color_col self")
       (simp_all add: optional_argument_Some plain_optional_name_def repr_plain_name)
  show ?thesis
    unfolding BivariateAnalysis_code_def Let_def bivariate_analysis_call_def
    by (simp only: subs cols pairs color) (simp only: append_assoc)
qed

lemma BivariateAnalysis_add_cells_verbosity_0:
  assumes "ba_verbosity self = 0"
  shows "BivariateAnalysis_add_cells env self cells
         = cells @ [MarkdownCell (get_title env ''Bivariate analysis'' 1),
                    CodeCell (BivariateAnalysis_code self)]
           @ concat (map (\<lambda>sub. impl_add_cells env sub [])
                       (filter (\<lambda>sub. 0 < impl_verbosity sub) (ba_subsections self)))"
  using assms by (simp add: BivariateAnalysis_add_cells_def Let_def fold_add_cells)

lemma BivariateAnalysis_show_all_zero:
  assumes "list_all (\<lambda>sub. impl_verbosity sub = 0) (ba_subsections self)"
  shows "BivariateAnalysis_show env self df
         = and_then (display (Markdown (get_title env ''Bivariate analysis'' 1)))
             (show_subsections env (filter (\<lambda>sub. impl_verbosity sub = 0) (ba_subsections self)) df)"
proof -
  have "filter (\<lambda>sub. impl_verbosity sub = 0) (ba_subsections self) = ba_subsections self"
    using assms by (simp add: list_all_iff)
  then show ?thesis
    by (simp add: BivariateAnalysis_show_def)
qed


subsection \<open>Cells of the univariate section\<close>

lemma add_cells_columns_total:
  "set cols \<subseteq> set (df_columns df) \<Longrightarrow>
   add_cells_columns env v df cols cells shown
     = Inr (cells @ concat (map (\<lambda>col. fst (add_cells_column env v col (df_series df col))) cols),
            shown @ concat (map (\<lambda>col. snd (add_cells_column env v col (df_series df col))) cols))"
  by (induction cols arbitrary: cells shown) (simp_all add: bindE_def df_getitem_series)

lemma univariate_code_call:
  "(case columns of
      None \<Rightarrow> ''univariate_analysis(df=df)''
    | Some cols \<Rightarrow> ''univariate_analysis(df=df, columns='' @ py_repr_list cols @ '')'')
   = univariate_analysis_call columns"
  by (cases columns) (simp_all add: univariate_analysis_call_def optional_argument_Some)

lemma UnivariateAnalysis_add_cells_result:
  assumes sel: "(case ua_columns self of Some cols \<Rightarrow> df_getitem_list (ua_df self) cols
                 | None \<Rightarrow> Inr (ua_df self)) = Inr analysed"
  shows "UnivariateAnalysis_add_cells env self cells
         = Inr (self\<lparr>ua_df := analysed\<rparr>,
                cells @ [MarkdownCell (get_title env ''Univariate Analysis'' 1)]
                @ (if ua_verbosity self = 2 then definition_cells env else [])
                @ (if ua_verbosity self = 0
                   then [CodeCell (univariate_analysis_call (ua_columns self))]
                   else concat (map (\<lambda>col. fst (add_cells_column env (ua_verbosity self) col
                                                  (df_series analysed col)))
                                  (df_columns analysed))),
                if ua_verbosity self = 0 then []
                else concat (map (\<lambda>col. snd (add_cells_column env (ua_verbosity self) col
                                               (df_series analysed col)))
                               (df_columns analysed)))"
proof -
  have narrowed: "(case ua_columns self of
              Some cols \<Rightarrow> bindE (df_getitem_list (ua_df self) cols) (\<lambda>df. Inr (self\<lparr>ua_df := df\<rparr>))
            | None \<Rightarrow> Inr self) = Inr (self\<lparr>ua_df := analysed\<rparr>)"
    using sel by (cases "ua_columns self") (auto simp: bindE_def)
  show ?thesis
    unfolding UnivariateAnalysis_add_cells_def narrowed
    by (simp add: bindE_def Let_def univariate_code_call add_cells_columns_total)
qed

lemma show_column_without_rules:
  "filter (\<lambda>e. \<not> is_rule e) (fst (show_column env col series))
   = fst (univariate_analysis_column env col series)"
  by (simp add: show_column_events univariate_analysis_column_events is_rule_def)

lemma filter_concat_map:
  "filter P (concat (map f xs)) = concat (map (\<lambda>x. filter P (f x)) xs)"
  by (induction xs) simp_all

lemma UnivariateAnalysis_show_and_call:
  "snd (UnivariateAnalysis_show env self df) = snd (univariate_analysis env df (ua_columns self))
   \<and> filter (\<lambda>e. \<not> is_rule e) (tl (fst (UnivariateAnalysis_show env self df)))
       = fst (univariate_analysis env df (ua_columns self))
   \<and> (snd (UnivariateAnalysis_show env self df) = None \<longrightarrow>
        hd (fst (UnivariateAnalysis_show env self df))
          = Markdown (get_title env ''Univariate Analysis'' 1))"
proof (cases "case ua_columns self of Some cols \<Rightarrow> df_getitem_list df cols | None \<Rightarrow> Inr df")
  case (Inl e)
  then show ?thesis
    by (simp add: UnivariateAnalysis_show_def univariate_analysis_def with_value_def raise_def)
next
  case (Inr analysed)
  show ?thesis
    unfolding UnivariateAnalysis_show_events [OF Inr] univariate_analysis_events [OF Inr]
    by (simp add: filter_concat_map show_column_without_rules)
qed


subsection \<open>What the aggregate call performs\<close>

text \<open>
  C2, as amended. For a \<open>BivariateAnalysis\<close> constructed at verbosity 0 (with a
  \<open>color_col\<close> free of quotes, backslashes and control characters), \<open>add_cells\<close>
  exports the title and one cell with a call of \<open>bivariate_analysis\<close>, followed by the
  cells of the subsections that were given a verbosity of their own above 0. The call
  carries the stored \<open>subsections_0\<close> (the subsections at verbosity 0; omitted when
  these are all subsections by default), \<open>columns_x\<close> and \<open>columns_y\<close> when
  specified and \<open>columns\<close> otherwise, \<open>columns_pairs\<close> and \<open>color_col\<close>. Executing
  it shows exactly the subsections at verbosity 0, in order, as \<open>show\<close> does for them:
  when every subsection is at verbosity 0 the call is the only code cell, and \<open>show\<close>
  is the title of the section followed by what the call displays. For a
  \<open>UnivariateAnalysis\<close> at verbosity 0, \<open>add_cells\<close> exports the title and one cell with
  a call of \<open>univariate_analysis\<close> carrying the stored \<open>columns\<close>; \<open>show\<close> displays
  the title, then what that call displays with a rule added after every column that is
  not all null, and ends with the same exception, if any.
\<close>

theorem aggregate_call_at_verbosity_0:
  assumes init: "BivariateAnalysis_init subsections 0 columns columns_x columns_y columns_pairs
                   verbosity_correlations verbosity_pairplot verbosity_contingency_table color_col
                 = Inr section"
    and plain: "plain_optional_name color_col"
  shows "BivariateAnalysis_add_cells env section cells
           = cells @ [MarkdownCell (get_title env ''Bivariate analysis'' 1),
                      CodeCell (bivariate_analysis_call (ba_subsections_0 section)
                                  (carried_columns columns columns_x) columns_x columns_y
                                  columns_pairs color_col)]
             @ concat (map (\<lambda>sub. impl_add_cells env sub [])
                         (filter (\<lambda>sub. 0 < impl_verbosity sub) (ba_subsections section)))
    \<and> bivariate_analysis env df (ba_subsections_0 section) (carried_columns columns columns_x)
          columns_x columns_y columns_pairs color_col
        = show_subsections env (filter (\<lambda>sub. impl_verbosity sub = 0) (ba_subsections section)) df
    \<and> (list_all (\<lambda>sub. impl_verbosity sub = 0) (ba_subsections section) \<longrightarrow>
          BivariateAnalysis_add_cells env section cells
            = cells @ [MarkdownCell (get_title env ''Bivariate analysis'' 1),
                       CodeCell (bivariate_analysis_call (ba_subsections_0 section)
                                   (carried_columns columns columns_x) columns_x columns_y
                                   columns_pairs color_col)]
          \<and> BivariateAnalysis_show env section df
              = and_then (display (Markdown (get_title env ''Bivariate analysis'' 1)))
                  (bivariate_analysis env df (ba_subsections_0 section)
                     (carried_columns columns columns_x) columns_x columns_y columns_pairs color_col))
    \<and> ((case u_columns of Some cols \<Rightarrow> df_getitem_list u_df cols | None \<Rightarrow> Inr u_df) = Inr analysed
          \<longrightarrow> UnivariateAnalysis_add_cells env (UnivariateAnalysis_init u_df 0 u_columns) cells
              = Inr (UnivariateAnalysis_init analysed 0 u_columns,
                     cells @ [MarkdownCell (get_title env ''Univariate Analysis'' 1),
                              CodeCell (univariate_analysis_call u_columns)],
                     []))
    \<and> snd (UnivariateAnalysis_show env (UnivariateAnalysis_init u_df 0 u_columns) df)
        = snd (univariate_analysis env df u_columns)
    \<and> filter (\<lambda>e. \<not> is_rule e)
          (tl (fst (UnivariateAnalysis_show env (UnivariateAnalysis_init u_df 0 u_columns) df)))
        = fst (univariate_analysis env df u_columns)
    \<and> (snd (UnivariateAnalysis_show env (UnivariateAnalysis_init u_df 0 u_columns) df) = None \<longrightarrow>
          hd (fst (UnivariateAnalysis_show env (UnivariateAnalysis_init u_df 0 u_columns) df))
            = Markdown (get_title env ''Univariate Analysis'' 1))"
proof -
  note ok = BivariateAnalysis_init_Inr [OF init]
  have fields: "ba_verbosity section = 0" "ba_columns section = columns"
    "ba_columns_x section = columns_x" "ba_columns_y section = columns_y"
    "ba_columns_pairs section = columns_pairs" "ba_color_col section = color_col"
    using init unfolding BivariateAnalysis_init_result [OF ok] by auto
  have code: "BivariateAnalysis_code section
      = bivariate_analysis_call (ba_subsections_0 section) (carried_columns columns columns_x)
          columns_x columns_y columns_pairs color_col"
    using BivariateAnalysis_code_call [where self = "section"] ok plain by (simp add: fields)
  have cells: "BivariateAnalysis_add_cells env section cells
           = cells @ [MarkdownCell (get_title env ''Bivariate analysis'' 1),
                      CodeCell (bivariate_analysis_call (ba_subsections_0 section)
                                  (carried_columns columns columns_x) columns_x columns_y
                                  columns_pairs color_col)]
             @ concat (map (\<lambda>sub. impl_add_cells env sub [])
                         (filter (\<lambda>sub. 0 < impl_verbosity sub) (ba_subsections section)))"
    using BivariateAnalysis_add_cells_verbosity_0 [OF fields(1), of env cells] by (simp only: code)
  note call = bivariate_analysis_of_call [OF init, of env df]
  have all_zero: "list_all (\<lambda>sub. impl_verbosity sub = 0) (ba_subsections section) \<longrightarrow>
          BivariateAnalysis_add_cells env section cells
            = cells @ [MarkdownCell (get_title env ''Bivariate analysis'' 1),
                       CodeCell (bivariate_analysis_call (ba_subsections_0 section)
                                   (carried_columns columns columns_x) columns_x columns_y
                                   columns_pairs color_col)]
          \<and> BivariateAnalysis_show env section df
              = and_then (display (Markdown (get_title env ''Bivariate analysis'' 1)))
                  (bivariate_analysis env df (ba_subsections_0 section)
                     (carried_columns columns columns_x) columns_x columns_y columns_pairs color_col)"
  proof (intro impI conjI)
    assume zero: "list_all (\<lambda>sub. impl_verbosity sub = 0) (ba_subsections section)"
    then have "filter (\<lambda>sub. 0 < impl_verbosity sub) (ba_subsections section) = []"
      by (simp add: list_all_iff filter_empty_conv)
    then show "BivariateAnalysis_add_cells env section cells
            = cells @ [MarkdownCell (get_title env ''Bivariate analysis'' 1),
                       CodeCell (bivariate_analysis_call (ba_subsections_0 section)
                                   (carried_columns columns columns_x) columns_x columns_y
                                   columns_pairs color_col)]"
      by (simp add: cells)
    show "BivariateAnalysis_show env section df
              = and_then (display (Markdown (get_title env ''Bivariate analysis'' 1)))
                  (bivariate_analysis env df (ba_subsections_0 section)
                     (carried_columns columns columns_x) columns_x columns_y columns_pairs color_col)"
      by (simp only: call BivariateAnalysis_show_all_zero [OF zero])
  qed
  have univariate: "(case u_columns of Some cols \<Rightarrow> df_getitem_list u_df cols | None \<Rightarrow> Inr u_df) = Inr analysed
          \<longrightarrow> UnivariateAnalysis_add_cells env (UnivariateAnalysis_init u_df 0 u_columns) cells
              = Inr (UnivariateAnalysis_init analysed 0 u_columns,
                     cells @ [MarkdownCell (get_title env ''Univariate Analysis'' 1),
                              CodeCell (univariate_analysis_call u_columns)],
                     [])"
  proof
    assume "(case u_columns of Some cols \<Rightarrow> df_getitem_list u_df cols | None \<Rightarrow> Inr u_df) = Inr analysed"
    then have sel: "(case ua_columns (UnivariateAnalysis_init u_df 0 u_columns) of
          Some cols \<Rightarrow> df_getitem_list (ua_df (UnivariateAnalysis_init u_df 0 u_columns)) cols
        | None \<Rightarrow> Inr (ua_df (UnivariateAnalysis_init u_df 0 u_columns))) = Inr analysed"
      by (cases u_columns) (simp_all add: UnivariateAnalysis_init_def)
    show "UnivariateAnalysis_add_cells env (UnivariateAnalysis_init u_df 0 u_columns) cells
              = Inr (UnivariateAnalysis_init analysed 0 u_columns,
                     cells @ [MarkdownCell (get_title env ''Univariate Analysis'' 1),
                              CodeCell (univariate_analysis_call u_columns)],
                     [])"
      unfolding UnivariateAnalysis_add_cells_result [OF sel]
      by (simp add: UnivariateAnalysis_init_def)
  qed
  note shown = UnivariateAnalysis_show_and_call [of env "UnivariateAnalysis_init u_df 0 u_columns" df]
  have columns: "ua_columns (UnivariateAnalysis_init u_df 0 u_columns) = u_columns"
    by (simp add: UnivariateAnalysis_init_def)
  show ?thesis
    using shown unfolding columns
    by (intro conjI cells call all_zero univariate) blast+
qed

text \<open>The theorem for \<open>BivariateAnalysis(columns=['x'], color_col='k')\<close> and
  \<open>UnivariateAnalysis(df, columns=['x'])\<close> on the example frame.\<close>

theorem aggregate_call_at_verbosity_0_witness:
  "BivariateAnalysis_init None 0 (Some [''x'']) None None None None None None (Some ''k'')
     = Inr example_section
   \<and> plain_optional_name (Some ''k'')
   \<and> list_all (\<lambda>sub. impl_verbosity sub = 0) (ba_subsections example_section)
   \<and> BivariateAnalysis_add_cells ref_env example_section []
       = [MarkdownCell ''# Bivariate analysis'',
          CodeCell ''bivariate_analysis(df=df, columns=['x'], color_col='k')'']
   \<and> BivariateAnalysis_show ref_env example_section example_frame
       = and_then (display (Markdown ''# Bivariate analysis''))
           (bivariate_analysis ref_env example_frame None (Some [''x'']) None None None (Some ''k''))
   \<and> UnivariateAnalysis_add_cells ref_env (UnivariateAnalysis_init example_frame 0 (Some [''x''])) []
       = Inr (UnivariateAnalysis_init
                \<lparr>df_index = [], df_data = [(''x'', [Some (PyFloat (1 / 2)), Some (PyFloat (3 / 2))])]\<rparr>
                0 (Some [''x'']),
              [MarkdownCell ''# Univariate Analysis'',
               CodeCell ''univariate_analysis(df=df, columns=['x'])''],
              [])"
proof -
  let ?an = "\<lparr>df_index = [], df_data = [(''x'', [Some (PyFloat (1 / 2)), Some (PyFloat (3 / 2))])]\<rparr>"
  have init: "BivariateAnalysis_init None 0 (Some [''x'']) None None None None None None (Some ''k'')
     = Inr example_section"
    by code_simp
  have plain: "plain_optional_name (Some ''k'')"
    by code_simp
  have zero: "list_all (\<lambda>sub. impl_verbosity sub = 0) (ba_subsections example_section)"
    by code_simp
  have sel: "(case Some [''x''] of Some cols \<Rightarrow> df_getitem_list example_frame cols | None \<Rightarrow> Inr example_frame)
      = Inr ?an"
    by code_simp
  note inst = aggregate_call_at_verbosity_0 [OF init plain, where env = ref_env and df = example_frame
      and cells = "[]" and u_df = example_frame and u_columns = "Some [''x'']" and analysed = ?an]
  note all_zero = mp [OF conjunct1 [OF conjunct2 [OF conjunct2 [OF inst]]] zero]
  note univariate = mp [OF conjunct1 [OF conjunct2 [OF conjunct2 [OF conjunct2 [OF inst]]]] sel]
  have title: "get_title ref_env ''Bivariate analysis'' 1 = ''# Bivariate analysis''"
    "get_title ref_env ''Univariate Analysis'' 1 = ''# Univariate Analysis''"
    by code_simp+
  have call: "bivariate_analysis_call (ba_subsections_0 example_section)
      (carried_columns (Some [''x'']) None) None None None (Some ''k'')
      = ''bivariate_analysis(df=df, columns=['x'], color_col='k')''"
    by code_simp
  have ucall: "univariate_analysis_call (Some [''x'']) = ''univariate_analysis(df=df, columns=['x'])''"
    by code_simp
  have carried: "carried_columns (Some [''x'']) None = Some [''x'']" "ba_subsections_0 example_section = None"
    by code_simp+
  have cells: "BivariateAnalysis_add_cells ref_env example_section []
       = [MarkdownCell ''# Bivariate analysis'',
          CodeCell ''bivariate_analysis(df=df, columns=['x'], color_col='k')'']"
    by (simp only: conjunct1 [OF all_zero] title call append_Nil)
  have shown: "BivariateAnalysis_show ref_env example_section example_frame
       = and_then (display (Markdown ''# Bivariate analysis''))
           (bivariate_analysis ref_env example_frame None (Some [''x'']) None None None (Some ''k''))"
    by (simp only: conjunct2 [OF all_zero] title carried)
  have ucells: "UnivariateAnalysis_add_cells ref_env (UnivariateAnalysis_init example_frame 0 (Some [''x''])) []
       = Inr (UnivariateAnalysis_init ?an 0 (Some [''x'']),
              [MarkdownCell ''# Univariate Analysis'',
               CodeCell ''univariate_analysis(df=df, columns=['x'])''],
              [])"
    by (simp only: univariate title ucall append_Nil)
  show ?thesis
    by (intro conjI init plain zero cells shown ucells)
qed

text \<open>
  C2 as stated fails in three ways. \<open>BivariateAnalysis(verbosity_pairplot=1)\<close> is a
  section at verbosity 0 whose export is a call for two subsections followed by the cells
  of the pair plot: \<open>show\<close> displays the pair plot, executing the call does not. With
  \<open>columns\<close>, \<open>columns_x\<close> and \<open>columns_y\<close> all given, the section stores
  \<open>columns\<close> and the call does not carry it. And \<open>UnivariateAnalysis.show\<close> displays a
  rule after a column, which the call of \<open>univariate_analysis\<close> does not.
\<close>

theorem aggregate_call_at_verbosity_0_counterexample:
  "BivariateAnalysis_init None 0 None None None None None (Some 1) None None
     = Inr pairplot_verbosity_1_section
   \<and> BivariateAnalysis_add_cells ref_env pairplot_verbosity_1_section []
       = [MarkdownCell ''# Bivariate analysis'',
          CodeCell (''bivariate_analysis(df=df, subsections=[''
                    @ ''BivariateAnalysis.BivariateAnalysisSubsection.CorrelationPlot, ''
                    @ ''BivariateAnalysis.BivariateAnalysisSubsection.ContingencyTable])''),
          MarkdownCell ''## Pairplot'',
          CodeCell ''plot_pairplot(df=df)'']
   \<and> PairPlotShown [''x''] [''x''] None
       \<in> set (fst (BivariateAnalysis_show ref_env pairplot_verbosity_1_section example_frame))
   \<and> PairPlotShown [''x''] [''x''] None
       \<notin> set (fst (bivariate_analysis ref_env example_frame
                       (Some [Sub_CorrelationPlot, Sub_ContingencyTable]) None None None None None))
   \<and> map_sum id ba_columns
        (BivariateAnalysis_init None 0 (Some [''x'']) (Some [''x'']) (Some [''k'']) None None None None None)
       = Inr (Some [''x''])
   \<and> map_sum id BivariateAnalysis_code
        (BivariateAnalysis_init None 0 (Some [''x'']) (Some [''x'']) (Some [''k'']) None None None None None)
       = Inr ''bivariate_analysis(df=df, columns_x=['x'], columns_y=['k'])''
   \<and> Markdown ''---''
       \<in> set (fst (UnivariateAnalysis_show ref_env (UnivariateAnalysis_init example_frame 0 None)
                       example_frame))
   \<and> Markdown ''---'' \<notin> set (fst (univariate_analysis ref_env example_frame None))"
  by code_simp


subsection \<open>The exported code at the three verbosities\<close>

lemma CorrelationPlot_default_call_text:
  assumes "\<not> exactly_one_specified (cp_columns_x self) (cp_columns_y self)"
  shows "CorrelationPlot_default_call self
         = plot_correlations_call (carried_columns (cp_columns self) (cp_columns_x self))
             (cp_columns_x self) (cp_columns_y self)"
  using assms
  by (cases "cp_columns_x self"; cases "cp_columns_y self"; cases "cp_columns self")
     (simp_all add: CorrelationPlot_default_call_def plot_correlations_call_def
        exactly_one_specified_def optional_argument_Some carried_columns_def py_format_optional_def)

lemma impl_verbosity_init:
  assumes init: "BivariateAnalysis_init subsections verbosity columns cx cy pairs vc vp vt color
                 = Inr section"
  shows "map impl_verbosity (ba_subsections section)
         = map (lookup_subsection (or_else vc verbosity) (or_else vp verbosity) (or_else vt verbosity))
             (case subsections of None \<Rightarrow> all_subsections | Some subs \<Rightarrow> subs)"
  using init unfolding BivariateAnalysis_init_result [OF BivariateAnalysis_init_Inr [OF init]]
  by (auto simp: comp_def impl_verbosity_built)

text \<open>
  C3, as amended. A subsection of \<open>BivariateAnalysis\<close> whose own verbosity is left as
  \<open>None\<close> takes the verbosity of the section, and one given a verbosity keeps it.
  \<open>CorrelationPlot.add_cells\<close> exports its title and one code cell: at verbosity 0 and at
  verbosity 1 alike the call of \<open>plot_correlations\<close> with the stored columns, and at
  verbosity 2 that call preceded by the definitions of the functions it needs.
  \<open>UnivariateAnalysis.add_cells\<close> exports its title and then: at verbosity 0 one call of
  \<open>univariate_analysis\<close>; at verbosity 1 a heading and a code cell for every column that
  is not all null; at verbosity 2 the cells with the function definitions followed by a
  heading and a code cell for every such column. The code cell of a categorical or boolean
  column is the same at verbosity 1 and 2; for any other column it calls
  \<open>numeric_statistics\<close> and \<open>histogram\<close> on the column at verbosity 1, and at
  verbosity 2 the call of \<open>numeric_statistics\<close> also passes the default statistics
  explicitly. An all null column adds no cell and displays a note.
\<close>

theorem verbosity_levels_of_exported_code:
  "(BivariateAnalysis_init subsections verbosity columns columns_x columns_y columns_pairs
        verbosity_correlations verbosity_pairplot verbosity_contingency_table color_col = Inr section
      \<longrightarrow> map impl_verbosity (ba_subsections section)
          = map (lookup_subsection
                   (case verbosity_correlations of None \<Rightarrow> verbosity | Some v \<Rightarrow> v)
                   (case verbosity_pairplot of None \<Rightarrow> verbosity | Some v \<Rightarrow> v)
                   (case verbosity_contingency_table of None \<Rightarrow> verbosity | Some v \<Rightarrow> v))
              (case subsections of None \<Rightarrow> all_subsections | Some subs \<Rightarrow> subs))
   \<and> (\<not> exactly_one_specified (cp_columns_x plot) (cp_columns_y plot) \<longrightarrow>
        CorrelationPlot_default_call plot
          = plot_correlations_call (carried_columns (cp_columns plot) (cp_columns_x plot))
              (cp_columns_x plot) (cp_columns_y plot))
   \<and> CorrelationPlot_add_cells env plot cells
       = cells @ [MarkdownCell (get_title env ''Correlation Plot'' 2),
                  CodeCell ((if cp_verbosity plot \<le> 1 then []
                             else get_code env ''CorrelationPlot.default_correlations''
                                  @ newline @ newline
                                  @ get_code env ''CorrelationPlot._get_columns_x_y''
                                  @ newline @ newline
                                  @ py_replace ''CorrelationPlot.'' ''''
                                      (get_code env ''CorrelationPlot.plot_correlation'')
                                  @ newline @ newline
                                  @ py_replace ''CorrelationPlot.'' ''''
                                      (get_code env ''CorrelationPlot.plot_correlations'')
                                  @ newline @ newline)
                            @ CorrelationPlot_default_call plot)]
   \<and> ((case ua_columns self of Some cols \<Rightarrow> df_getitem_list (ua_df self) cols
         | None \<Rightarrow> Inr (ua_df self)) = Inr analysed
        \<longrightarrow> UnivariateAnalysis_add_cells env self cells
            = Inr (self\<lparr>ua_df := analysed\<rparr>,
                   cells @ [MarkdownCell (get_title env ''Univariate Analysis'' 1)]
                   @ (if ua_verbosity self = 2 then definition_cells env else [])
                   @ (if ua_verbosity self = 0
                      then [CodeCell (univariate_analysis_call (ua_columns self))]
                      else concat (map (\<lambda>col. fst (add_cells_column env (ua_verbosity self) col
                                                     (df_series analysed col)))
                                     (df_columns analysed))),
                   if ua_verbosity self = 0 then []
                   else concat (map (\<lambda>col. snd (add_cells_column env (ua_verbosity self) col
                                                  (df_series analysed col)))
                                  (df_columns analysed))))
   \<and> add_cells_column env level col series
       = (if isnull_all series
          then ([], [Markdown (''## *'' @ col @ '' - NULL*''),
                     Markdown ''The column contains only null values.''])
          else ([MarkdownCell (''## *'' @ col @ '' - '' @ infer_data_type_name env series @ ''*''),
                 CodeCell (code_dedent env
                   (if infer_data_type env series = CATEGORICAL \<or> infer_data_type env series = BOOLEAN
                    then categorical_template col
                    else if level = 1 then numeric_template col
                    else numeric_template_with_statistics col))], []))"
proof (intro conjI impI)
  assume init: "BivariateAnalysis_init subsections verbosity columns columns_x columns_y columns_pairs
        verbosity_correlations verbosity_pairplot verbosity_contingency_table color_col = Inr section"
  show "map impl_verbosity (ba_subsections section)
          = map (lookup_subsection
                   (case verbosity_correlations of None \<Rightarrow> verbosity | Some v \<Rightarrow> v)
                   (case verbosity_pairplot of None \<Rightarrow> verbosity | Some v \<Rightarrow> v)
                   (case verbosity_contingency_table of None \<Rightarrow> verbosity | Some v \<Rightarrow> v))
              (case subsections of None \<Rightarrow> all_subsections | Some subs \<Rightarrow> subs)"
    using impl_verbosity_init [OF init] by (simp add: or_else_def)
next
  assume "\<not> exactly_one_specified (cp_columns_x plot) (cp_columns_y plot)"
  then show "CorrelationPlot_default_call plot
          = plot_correlations_call (carried_columns (cp_columns plot) (cp_columns_x plot))
              (cp_columns_x plot) (cp_columns_y plot)"
    by (rule CorrelationPlot_default_call_text)
next
  show "CorrelationPlot_add_cells env plot cells
       = cells @ [MarkdownCell (get_title env ''Correlation Plot'' 2),
                  CodeCell ((if cp_verbosity plot \<le> 1 then []
                             else get_code env ''CorrelationPlot.default_correlations''
                                  @ newline @ newline
                                  @ get_code env ''CorrelationPlot._get_columns_x_y''
                                  @ newline @ newline
                                  @ py_replace ''CorrelationPlot.'' ''''
                                      (get_code env ''CorrelationPlot.plot_correlation'')
                                  @ newline @ newline
                                  @ py_replace ''CorrelationPlot.'' ''''
                                      (get_code env ''CorrelationPlot.plot_correlations'')
                                  @ newline @ newline)
                            @ CorrelationPlot_default_call plot)]"
    by (simp add: CorrelationPlot_add_cells_def Let_def)
next
  assume "(case ua_columns self of Some cols \<Rightarrow> df_getitem_list (ua_df self) cols
         | None \<Rightarrow> Inr (ua_df self)) = Inr analysed"
  then show "UnivariateAnalysis_add_cells env self cells
            = Inr (self\<lparr>ua_df := analysed\<rparr>,
                   cells @ [MarkdownCell (get_title env ''Univariate Analysis'' 1)]
                   @ (if ua_verbosity self = 2 then definition_cells env else [])
                   @ (if ua_verbosity self = 0
                      then [CodeCell (univariate_analysis_call (ua_columns self))]
                      else concat (map (\<lambda>col. fst (add_cells_column env (ua_verbosity self) col
                                                     (df_series analysed col)))
                                     (df_columns analysed))),
                   if ua_verbosity self = 0 then []
                   else concat (map (\<lambda>col. snd (add_cells_column env (ua_verbosity self) col
                                                  (df_series analysed col)))
                                  (df_columns analysed)))"
    by (rule UnivariateAnalysis_add_cells_result)
next
  show "add_cells_column env level col series
       = (if isnull_all series
          then ([], [Markdown (''## *'' @ col @ '' - NULL*''),
                     Markdown ''The column contains only null values.''])
          else ([MarkdownCell (''## *'' @ col @ '' - '' @ infer_data_type_name env series @ ''*''),
                 CodeCell (code_dedent env
                   (if infer_data_type env series = CATEGORICAL \<or> infer_data_type env series = BOOLEAN
                    then categorical_template col
                    else if level = 1 then numeric_template col
                    else numeric_template_with_statistics col))], []))"
    by (simp add: add_cells_column_def Let_def)
qed

text \<open>The theorem for \<open>BivariateAnalysis(verbosity_pairplot=1)\<close>,
  \<open>CorrelationPlot(verbosity=2, columns=['x'])\<close> and
  \<open>UnivariateAnalysis(df, verbosity=1, columns=['k'])\<close> on the example frame.\<close>

theorem verbosity_levels_of_exported_code_witness:
  "BivariateAnalysis_init None 0 None None None None None (Some 1) None None
     = Inr pairplot_verbosity_1_section
   \<and> map impl_verbosity (ba_subsections pairplot_verbosity_1_section) = [0, 1, 0]
   \<and> \<not> exactly_one_specified
         (cp_columns_x \<lparr>cp_verbosity = 2, cp_columns = Some [''x''], cp_columns_x = None,
                         cp_columns_y = None\<rparr>)
         (cp_columns_y \<lparr>cp_verbosity = 2, cp_columns = Some [''x''], cp_columns_x = None,
                         cp_columns_y = None\<rparr>)
   \<and> CorrelationPlot_default_call
         \<lparr>cp_verbosity = 2, cp_columns = Some [''x''], cp_columns_x = None, cp_columns_y = None\<rparr>
       = ''plot_correlations(df=df, columns=['x'])''
   \<and> (case ua_columns (UnivariateAnalysis_init example_frame 1 (Some [''k''])) of
         Some cols \<Rightarrow> df_getitem_list (ua_df (UnivariateAnalysis_init example_frame 1 (Some [''k'']))) cols
       | None \<Rightarrow> Inr (ua_df (UnivariateAnalysis_init example_frame 1 (Some [''k'']))))
       = Inr \<lparr>df_index = [], df_data = [(''k'', [Some (PyStr ''u''), Some (PyStr ''v'')])]\<rparr>
   \<and> UnivariateAnalysis_add_cells ref_env (UnivariateAnalysis_init example_frame 1 (Some [''k''])) []
       = Inr (UnivariateAnalysis_init
                \<lparr>df_index = [], df_data = [(''k'', [Some (PyStr ''u''), Some (PyStr ''v'')])]\<rparr>
                1 (Some [''k'']),
              [MarkdownCell ''# Univariate Analysis'',
               MarkdownCell ''## *k - categorical*'',
               CodeCell (''top_most_frequent(df['k'])'' @ newline @ ''bar_plot(df['k'])'')],
              [])"
proof -
  let ?an = "\<lparr>df_index = [], df_data = [(''k'', [Some (PyStr ''u''), Some (PyStr ''v'')])]\<rparr>"
  let ?plot = "\<lparr>cp_verbosity = 2, cp_columns = Some [''x''], cp_columns_x = None,
                 cp_columns_y = None\<rparr>"
  let ?self = "UnivariateAnalysis_init example_frame 1 (Some [''k''])"
  have init: "BivariateAnalysis_init None 0 None None None None None (Some 1) None None
     = Inr pairplot_verbosity_1_section"
    by code_simp
  have both: "\<not> exactly_one_specified (cp_columns_x ?plot) (cp_columns_y ?plot)"
    by code_simp
  have sel: "(case ua_columns ?self of Some cols \<Rightarrow> df_getitem_list (ua_df ?self) cols
             | None \<Rightarrow> Inr (ua_df ?self)) = Inr ?an"
    by code_simp
  note inst = verbosity_levels_of_exported_code [where subsections = None and verbosity = 0
      and columns = None and columns_x = None and columns_y = None and columns_pairs = None
      and verbosity_correlations = None and verbosity_pairplot = "Some 1"
      and verbosity_contingency_table = None and color_col = None
      and plot = ?plot and env = ref_env
      and cells = "[]" and self = ?self and analysed = ?an]
  note levels = mp [OF conjunct1 [OF inst] init]
  note call = mp [OF conjunct1 [OF conjunct2 [OF inst]] both]
  note univariate = mp [OF conjunct1 [OF conjunct2 [OF conjunct2 [OF conjunct2 [OF inst]]]] sel]
  have l: "map impl_verbosity (ba_subsections pairplot_verbosity_1_section) = [0, 1, 0]"
    unfolding levels by code_simp
  have c: "CorrelationPlot_default_call ?plot = ''plot_correlations(df=df, columns=['x'])''"
    unfolding call by code_simp
  have u: "UnivariateAnalysis_add_cells ref_env ?self []
       = Inr (UnivariateAnalysis_init ?an 1 (Some [''k'']),
              [MarkdownCell ''# Univariate Analysis'',
               MarkdownCell ''## *k - categorical*'',
               CodeCell (''top_most_frequent(df['k'])'' @ newline @ ''bar_plot(df['k'])'')],
              [])"
    unfolding univariate by code_simp
  show ?thesis
    by (intro conjI init l both c sel u)
qed

text \<open>
  C3 as stated fails for a numeric column: at verbosity 2 the code cell of the column is
  not the call exported at verbosity 1 but a call of \<open>numeric_statistics\<close> with
  \<open>descriptive_stats\<close> and \<open>quantile_stats\<close> written out. And the levels are not three
  for \<open>CorrelationPlot\<close>, whose cells at verbosity 0 and 1 are the same.
\<close>

theorem verbosity_levels_of_exported_code_counterexample:
  "UnivariateAnalysis_add_cells ref_env (UnivariateAnalysis_init example_frame 1 (Some [''x''])) []
     = Inr (UnivariateAnalysis_init
              \<lparr>df_index = [], df_data = [(''x'', [Some (PyFloat (1 / 2)), Some (PyFloat (3 / 2))])]\<rparr>
              1 (Some [''x'']),
            [MarkdownCell ''# Univariate Analysis'',
             MarkdownCell ''## *x - numeric*'',
             CodeCell (''numeric_statistics(df['x'])'' @ newline @ ''histogram(df['x'])'')],
            [])
   \<and> UnivariateAnalysis_add_cells ref_env (UnivariateAnalysis_init example_frame 2 (Some [''x''])) []
     = Inr (UnivariateAnalysis_init
              \<lparr>df_index = [], df_data = [(''x'', [Some (PyFloat (1 / 2)), Some (PyFloat (3 / 2))])]\<rparr>
              2 (Some [''x'']),
            [MarkdownCell ''# Univariate Analysis''] @ definition_cells ref_env
            @ [MarkdownCell ''## *x - numeric*'',
               CodeCell (''numeric_statistics('' @ newline
                         @ ''    df['x'],'' @ newline
                         @ ''    descriptive_stats=default_descriptive_statistics(),'' @ newline
                         @ ''    quantile_stats=default_quantile_statistics()'' @ newline
                         @ '')'' @ newline
                         @ ''histogram(df['x'])'')],
            [])
   \<and> CorrelationPlot_add_cells ref_env
         \<lparr>cp_verbosity = 0, cp_columns = None, cp_columns_x = None, cp_columns_y = None\<rparr> []
       = CorrelationPlot_add_cells ref_env
         \<lparr>cp_verbosity = 1, cp_columns = None, cp_columns_x = None, cp_columns_y = None\<rparr> []"
  by code_simp


end
